theory Spec2Isabelle
  imports Complex_Main
begin

section \<open>The registry transport of \<open>client/v2_2/docker_http_.py\<close>\<close>

text \<open>
  A shallow embedding of the module: the diagnostics of an error body, the ping that
  discovers the authentication mode, the token exchange, the request with its single
  retry, the paginated request, the parser of the \<open>link\<close> header and the scheme
  resolver.

  Strings are lists of 8-bit characters, which is what an HTTP header or a body holds;
  bytes and text share this type. A Python value that comes out of \<open>json.loads\<close> is a
  \<open>json\<close>, with \<open>JNull\<close> for \<open>None\<close>. Every exception is a value of the type
  \<open>error\<close>. The lock around the assignment of the credential is not modelled: the
  embedding is sequential.
\<close>

subsection \<open>Python strings\<close>

definition startswith :: "string \<Rightarrow> string \<Rightarrow> bool" where
  "startswith s p = (take (length p) s = p)"

text \<open>\<open>s.split(c)\<close>: the pieces between the separators, at least one piece.\<close>

fun split_acc :: "char \<Rightarrow> string \<Rightarrow> string \<Rightarrow> string list" where
  "split_acc c acc [] = [rev acc]"
| "split_acc c acc (x # xs) =
     (if x = c then rev acc # split_acc c [] xs else split_acc c (x # acc) xs)"

definition split :: "char \<Rightarrow> string \<Rightarrow> string list" where
  "split c s = split_acc c [] s"

text \<open>\<open>s.split(c, 1)\<close> for a string that contains \<open>c\<close>: the text before the first
  \<open>c\<close> and the text after it.\<close>

definition split1 :: "char \<Rightarrow> string \<Rightarrow> string \<times> string" where
  "split1 c s = (takeWhile (\<lambda>x. x \<noteq> c) s, drop 1 (dropWhile (\<lambda>x. x \<noteq> c) s))"

text \<open>\<open>s.strip(c)\<close>: every leading and every trailing \<open>c\<close> is removed.\<close>

definition strip :: "char \<Rightarrow> string \<Rightarrow> string" where
  "strip c s = rev (dropWhile (\<lambda>x. x = c) (rev (dropWhile (\<lambda>x. x = c) s)))"

text \<open>\<open>sep.join(xs)\<close>.\<close>

fun join :: "string \<Rightarrow> string list \<Rightarrow> string" where
  "join sep [] = []"
| "join sep [x] = x"
| "join sep (x # y # ys) = x @ sep @ join sep (y # ys)"

definition ascii_lowercase :: string where
  "ascii_lowercase = ''abcdefghijklmnopqrstuvwxyz''"

definition ascii_uppercase :: string where
  "ascii_uppercase = ''ABCDEFGHIJKLMNOPQRSTUVWXYZ''"

definition upper :: "char \<Rightarrow> char" where
  "upper c = (case map_of (zip ascii_lowercase ascii_uppercase) c of Some u \<Rightarrow> u | None \<Rightarrow> c)"

definition lower :: "char \<Rightarrow> char" where
  "lower c = (case map_of (zip ascii_uppercase ascii_lowercase) c of Some l \<Rightarrow> l | None \<Rightarrow> c)"

text \<open>
  \<open>s.capitalize()\<close>: the first character in upper case, the others in lower case. The
  case mapping is the one of the ASCII letters. Python also maps letters outside ASCII;
  the result is only ever compared with \<open>Basic\<close> and \<open>Bearer\<close>, and a scheme with a
  character outside ASCII capitalizes to neither of them in Python, as it does here.
\<close>

definition capitalize :: "string \<Rightarrow> string" where
  "capitalize s = (case s of [] \<Rightarrow> [] | c # cs \<Rightarrow> upper c # map lower cs)"

subsection \<open>Regular expressions\<close>

text \<open>
  The two patterns of the module, matched the way Python's \<open>re.match\<close> does: from the
  start of the string, by backtracking, every quantifier greedy (the longest repetition
  is tried first). A pattern is a list of items. \<open>Mark\<close> records the input that is left
  where it stands: the two marks around \<open>(.+)\<close> give group 1.
\<close>

datatype atom = Lit char | Dot | Space | Digit

definition whitespace :: string where
  "whitespace = [CHR 0x09, CHR 0x0A, CHR 0x0B, CHR 0x0C, CHR 0x0D,
                 CHR 0x1C, CHR 0x1D, CHR 0x1E, CHR 0x1F, CHR 0x20, CHR 0x85, CHR 0xA0]"

fun ok :: "atom \<Rightarrow> char \<Rightarrow> bool" where
  "ok (Lit a) c = (c = a)"
| "ok Dot c = (c \<noteq> CHR 0x0A)"
| "ok Space c = (c \<in> set whitespace)"
| "ok Digit c = (c \<in> set ''0123456789'')"

datatype item =
    One atom
  | Star atom
  | Plus atom
  | Rep atom nat nat
  | Opt "item list"
  | Mark
  | Eol

function rmatch :: "item list \<Rightarrow> string \<Rightarrow> string list option" where
  "rmatch [] s = Some []"
| "rmatch (One a # r) [] = None"
| "rmatch (One a # r) (c # cs) = (if ok a c then rmatch r cs else None)"
| "rmatch (Star a # r) [] = rmatch r []"
| "rmatch (Star a # r) (c # cs) =
     (if ok a c
      then (case rmatch (Star a # r) cs of Some m \<Rightarrow> Some m | None \<Rightarrow> rmatch r (c # cs))
      else rmatch r (c # cs))"
| "rmatch (Plus a # r) [] = None"
| "rmatch (Plus a # r) (c # cs) = (if ok a c then rmatch (Star a # r) cs else None)"
| "rmatch (Rep a lo hi # r) [] = (if lo = 0 then rmatch r [] else None)"
| "rmatch (Rep a lo hi # r) (c # cs) =
     (if 0 < lo
      then (if ok a c then rmatch (Rep a (lo - 1) (hi - 1) # r) cs else None)
      else if 0 < hi \<and> ok a c
      then (case rmatch (Rep a 0 (hi - 1) # r) cs of Some m \<Rightarrow> Some m | None \<Rightarrow> rmatch r (c # cs))
      else rmatch r (c # cs))"
| "rmatch (Opt p # r) s =
     (case rmatch (p @ r) s of Some m \<Rightarrow> Some m | None \<Rightarrow> rmatch r s)"
| "rmatch (Mark # r) s = map_option (\<lambda>m. s # m) (rmatch r s)"
| "rmatch (Eol # r) s = (if s = [] \<or> s = [CHR 0x0A] then rmatch r s else None)"
  by pat_completeness auto
termination
  by (relation "measures [\<lambda>(p, s). length s, \<lambda>(p, s). size_list size p]") auto

definition lits :: "string \<Rightarrow> item list" where
  "lits s = map (\<lambda>c. One (Lit c)) s"

text \<open>\<open>m.group(1)\<close>, from the two marks of the match.\<close>

definition group1 :: "string list \<Rightarrow> string option" where
  "group1 m = (case m of [s1, s2] \<Rightarrow> Some (take (length s1 - length s2) s1) | _ \<Rightarrow> None)"

text \<open>\<open>.*<(.+)>;\s*rel="next".*\<close>, and its part after the group.\<close>

definition next_tail :: "item list" where
  \<open>next_tail =
     [One (Lit CHR ''>''), One (Lit CHR '';''), Star Space] @ lits ''rel="next"'' @ [Star Dot]\<close>

definition next_link_re :: "item list" where
  "next_link_re = [Star Dot, One (Lit CHR ''<''), Mark, Plus Dot, Mark] @ next_tail"

text \<open>No position of the text is the start of a match of \<open>>;\s*rel="next".*\<close>.\<close>

fun never_next :: "string \<Rightarrow> bool" where
  "never_next [] = (rmatch next_tail [] = None)"
| "never_next (c # cs) = (rmatch next_tail (c # cs) = None \<and> never_next cs)"

text \<open>\<open>.*\.local(?:host)?(?::\d{1,5})?$\<close>\<close>

definition local_re :: "item list" where
  "local_re =
     [Star Dot] @ lits ''.local'' @
     [Opt (lits ''host''), Opt [One (Lit CHR '':''), Rep Digit 1 5], Eol]"

subsection \<open>Values, responses and errors\<close>

datatype pyfloat = Finite rat | PosInf | NegInf | NaN

datatype json =
    JNull
  | JBool bool
  | JInt int
  | JFloat pyfloat
  | JStr string
  | JArr "json list"
  | JObj "(string \<times> json) list"

text \<open>The truth value Python gives to a value, as in \<open>a or b\<close>.\<close>

fun truthy :: "json \<Rightarrow> bool" where
  "truthy JNull = False"
| "truthy (JBool b) = b"
| "truthy (JInt i) = (i \<noteq> 0)"
| "truthy (JFloat f) = (f \<noteq> Finite 0)"
| "truthy (JStr s) = (s \<noteq> [])"
| "truthy (JArr xs) = (xs \<noteq> [])"
| "truthy (JObj kvs) = (kvs \<noteq> [])"

text \<open>\<open>class Diagnostic\<close>: the decoded element of the \<open>errors\<close> array, kept as it is.\<close>

datatype diagnostic = Diagnostic json

text \<open>An \<open>httplib2\<close> response: the status and the headers, their names in lower case.\<close>

record response =
  status :: int
  header :: "(string \<times> string) list"

text \<open>
  The exceptions. \<open>TokenRefreshException\<close> is a subclass of \<open>BadStateException\<close>.
  \<open>TransportError\<close> stands for whatever the HTTP client itself raises.
\<close>

datatype error =
    BadStateException
  | TokenRefreshException
  | V2DiagnosticException response "diagnostic list"
  | AttributeError
  | KeyError
  | TypeError
  | ValueError
  | UnboundLocalError
  | TransportError

record http_request =
  url :: string
  http_method :: string
  body :: "string option"
  headers :: "(string \<times> string) list"

datatype http_result = HttpRaise | HttpReturn response string

text \<open>
  What the module takes from outside: the user agent of \<open>docker_name\<close>, \<open>urlencode\<close>,
  the UTF-8 decoding of a body (\<open>None\<close> when \<open>decode\<close> raises), \<open>json.loads\<close> (\<open>None\<close>
  when it raises), the text Python prints for a value that is not a string, and the HTTP
  client handed to the constructor. The client answers a request given the requests made
  before it; every function below returns the list of requests made so far.
\<close>

record env =
  USER_AGENT :: string
  urlencode :: "(string \<times> string) list \<Rightarrow> string"
  decode :: "string \<Rightarrow> string option"
  loads :: "string \<Rightarrow> json option"
  text_of :: "json \<Rightarrow> string"
  http :: "http_request list \<Rightarrow> http_request \<Rightarrow> http_result"

text \<open>\<open>d.get(k)\<close> and \<open>d.get(k, default)\<close>; only a dict has the method.\<close>

definition get_default :: "json \<Rightarrow> string \<Rightarrow> json \<Rightarrow> error + json" where
  "get_default d k dflt =
     (case d of
        JObj kvs \<Rightarrow> (case map_of kvs k of None \<Rightarrow> Inr dflt | Some v \<Rightarrow> Inr v)
      | _ \<Rightarrow> Inl AttributeError)"

definition get :: "json \<Rightarrow> string \<Rightarrow> error + json" where
  "get d k = get_default d k JNull"

text \<open>\<open>for x in v\<close>: the elements of a list, the characters of a string, the keys of a
  dict; any other value is not iterable.\<close>

fun iterate :: "json \<Rightarrow> error + json list" where
  "iterate (JArr xs) = Inr xs"
| "iterate (JStr s) = Inr (map (\<lambda>c. JStr [c]) s)"
| "iterate (JObj kvs) = Inr (map (\<lambda>kv. JStr (fst kv)) kvs)"
| "iterate v = Inl TypeError"

subsection \<open>Diagnostics\<close>

fun code :: "diagnostic \<Rightarrow> error + json" where
  "code (Diagnostic d) = get d ''code''"

fun message :: "diagnostic \<Rightarrow> error + json" where
  "message (Diagnostic d) = get d ''message''"

fun detail :: "diagnostic \<Rightarrow> error + json" where
  "detail (Diagnostic d) = get d ''detail''"

text \<open>\<open>try: content = content.decode('utf8')\<close>, \<open>except: pass\<close>.\<close>

definition decoded :: "env \<Rightarrow> string \<Rightarrow> string" where
  "decoded e content = (case decode e content of Some c \<Rightarrow> c | None \<Rightarrow> content)"

text \<open>The body of the second \<open>try\<close> of \<open>_DiagnosticsFromContent\<close>.\<close>

definition diagnostics_of :: "env \<Rightarrow> string \<Rightarrow> error + diagnostic list" where
  "diagnostics_of e content =
     (case loads e content of
        None \<Rightarrow> Inl ValueError
      | Some obj \<Rightarrow>
          (case get_default obj ''errors'' (JArr []) of
             Inl err \<Rightarrow> Inl err
           | Inr v \<Rightarrow>
               (case iterate v of
                  Inl err \<Rightarrow> Inl err
                | Inr ds \<Rightarrow> Inr (map Diagnostic ds))))"

definition DiagnosticsFromContent :: "env \<Rightarrow> string \<Rightarrow> diagnostic list" where
  "DiagnosticsFromContent e content0 =
     (let content = decoded e content0 in
      case diagnostics_of e content of
        Inr ds \<Rightarrow> ds
      | Inl err \<Rightarrow>
          [Diagnostic (JObj [(''code'', JStr ''UNKNOWN''), (''message'', JStr content)])])"

text \<open>
  \<open>raise V2DiagnosticException(resp, content)\<close>. The constructor reads \<open>d.message\<close> and
  \<open>d.detail\<close> of every diagnostic for its message; where one of them raises, that is the
  exception that leaves the constructor.
\<close>

definition new_V2DiagnosticException :: "env \<Rightarrow> response \<Rightarrow> string \<Rightarrow> error" where
  "new_V2DiagnosticException e resp content =
     (let ds = DiagnosticsFromContent e content in
      if list_all (\<lambda>d. \<not> isl (message d) \<and> \<not> isl (detail d)) ds
      then V2DiagnosticException resp ds
      else AttributeError)"

subsection \<open>The \<open>link\<close> header and the scheme\<close>

definition ParseNextLinkHeader :: "response \<Rightarrow> string option" where
  "ParseNextLinkHeader resp =
     (case map_of (header resp) ''link'' of
        None \<Rightarrow> None
      | Some link \<Rightarrow>
          if link = [] then None
          else (case rmatch next_link_re link of
                  None \<Rightarrow> None
                | Some m \<Rightarrow> group1 m))"

definition Scheme :: "string \<Rightarrow> string" where
  "Scheme endpoint =
     (if startswith endpoint ''localhost:'' then ''http''
      else if startswith endpoint ''registry-docker-registry'' then ''http''
      else if rmatch local_re endpoint \<noteq> None then ''http''
      else ''https'')"

subsection \<open>The transport\<close>

definition PULL :: string where "PULL = ''pull''"
definition PUSH :: string where "PUSH = ''push,pull''"
definition DELETE :: string where "DELETE = PUSH"
definition CATALOG :: string where "CATALOG = ''catalog''"
definition ACTIONS :: "string list" where "ACTIONS = [PULL, PUSH, DELETE, CATALOG]"

definition ANONYMOUS :: string where "ANONYMOUS = []"
definition BASIC :: string where "BASIC = ''Basic''"
definition BEARER :: string where "BEARER = ''Bearer''"

definition REALM_PFX :: string where "REALM_PFX = ''realm=''"
definition SERVICE_PFX :: string where "SERVICE_PFX = ''service=''"

definition OK :: int where "OK = 200"
definition UNAUTHORIZED :: int where "UNAUTHORIZED = 401"

text \<open>
  The structured name of \<open>docker_name\<close>, as far as the transport reads it: the registry
  host and the scope string of an action.
\<close>

record name =
  registry :: string
  scope :: "string \<Rightarrow> string"

text \<open>
  The credential providers: \<open>docker_creds.Anonymous()\<close>, the provider the caller supplies
  (given by the header value it yields) and \<open>v2_2_creds.Bearer(token)\<close>.
\<close>

datatype provider = Anonymous | Supplied string | Bearer json

text \<open>
  Modelled from the spec: the method \<open>Get\<close> of the providers, whose classes
  (\<open>docker_creds\<close>, \<open>v2_2.docker_creds\<close>) are not in the module. Anonymous is "always
  empty", a supplied provider yields its "static encoded credential", and a Bearer
  provider of the token \<open>abc\<close> yields the header value \<open>Bearer abc\<close>.
\<close>

fun Get :: "env \<Rightarrow> provider \<Rightarrow> string" where
  "Get e Anonymous = []"
| "Get e (Supplied h) = h"
| "Get e (Bearer (JStr tok)) = ''Bearer '' @ tok"
| "Get e (Bearer v) = ''Bearer '' @ text_of e v"

text \<open>
  The object. \<open>_authentication\<close>, \<open>_service\<close>, \<open>_realm\<close> and \<open>_creds\<close> are attributes that
  \<open>__init__\<close> does not create: each is \<open>None\<close> until a method assigns it, and reading it
  before that raises \<open>AttributeError\<close>.
\<close>

record transport =
  name :: name
  basic_creds :: provider
  action :: string
  authentication :: "string option"
  service :: "string option"
  realm :: "string option"
  creds :: "provider option"

definition CheckState :: "bool \<Rightarrow> error + unit" where
  "CheckState predicate = (if \<not> predicate then Inl BadStateException else Inr ())"

definition ping_request :: "env \<Rightarrow> name \<Rightarrow> http_request" where
  "ping_request e nm =
     \<lparr>url = Scheme (registry nm) @ ''://'' @ registry nm @ ''/v2/'',
      http_method = ''GET'',
      body = None,
      headers = [(''content-type'', ''application/json''), (''user-agent'', USER_AGENT e)]\<rparr>"

text \<open>The body of the loop over the tokens of the challenge.\<close>

definition scan_token :: "transport \<Rightarrow> string \<Rightarrow> transport" where
  "scan_token t tok =
     (if startswith tok REALM_PFX
      then t\<lparr>realm := Some (strip (CHR 0x22) (drop (length REALM_PFX) tok))\<rparr>
      else if startswith tok SERVICE_PFX
      then t\<lparr>service := Some (strip (CHR 0x22) (drop (length SERVICE_PFX) tok))\<rparr>
      else t)"

text \<open>
  What the loop leaves for a parameter of the challenge: the value of the last token that
  starts with the prefix, if there is one. It is used to state what the loop computes.
\<close>

definition challenge_param :: "string \<Rightarrow> string list \<Rightarrow> string option" where
  "challenge_param pfx tokens =
     (case rev (filter (\<lambda>tok. startswith tok pfx) tokens) of
        [] \<Rightarrow> None
      | tok # older \<Rightarrow> Some (strip (CHR 0x22) (drop (length pfx) tok)))"

definition Ping :: "env \<Rightarrow> transport \<Rightarrow> http_request list
    \<Rightarrow> (error + unit) \<times> transport \<times> http_request list" where
  "Ping e t sent =
     (let req = ping_request e (name t); sent1 = sent @ [req] in
      case http e sent req of
        HttpRaise \<Rightarrow> (Inl TransportError, t, sent1)
      | HttpReturn resp content \<Rightarrow>
          if isl (CheckState (status resp \<in> set [OK, UNAUTHORIZED]))
          then (Inl BadStateException, t, sent1)
          else if status resp = OK
          then (Inr (), t\<lparr>authentication := Some ANONYMOUS,
                           service := Some ''none'', realm := Some ''none''\<rparr>, sent1)
          else
            (case map_of (header resp) ''www-authenticate'' of
               None \<Rightarrow> (Inl KeyError, t, sent1)
             | Some challenge \<Rightarrow>
                 if isl (CheckState (CHR '' '' \<in> set challenge))
                 then (Inl BadStateException, t, sent1)
                 else
                   (let (a, remainder) = split1 (CHR '' '') challenge;
                        t1 = t\<lparr>authentication := Some (capitalize a)\<rparr>
                    in if isl (CheckState (capitalize a \<in> set [BASIC, BEARER]))
                       then (Inl BadStateException, t1, sent1)
                       else
                         (let t2 = foldl scan_token
                                     (t1\<lparr>service := Some (registry (name t))\<rparr>)
                                     (split (CHR '','') remainder)
                          in case realm t2 of
                               None \<Rightarrow> (Inl AttributeError, t2, sent1)
                             | Some r \<Rightarrow>
                                 if isl (CheckState (r \<noteq> []))
                                 then (Inl BadStateException, t2, sent1)
                                 else (Inr (), t2, sent1)))))"

definition Scope :: "transport \<Rightarrow> string" where
  "Scope t = scope (name t) (action t)"

definition refresh_request :: "env \<Rightarrow> transport \<Rightarrow> string \<Rightarrow> string \<Rightarrow> http_request" where
  "refresh_request e t svc rlm =
     \<lparr>url = rlm @ ''?'' @ urlencode e [(''scope'', Scope t), (''service'', svc)],
      http_method = ''GET'',
      body = None,
      headers = [(''content-type'', ''application/json''), (''user-agent'', USER_AGENT e),
                 (''Authorization'', Get e (basic_creds t))]\<rparr>"

text \<open>\<open>wrapper_object.get('token') or wrapper_object.get('access_token')\<close>\<close>

definition token_of :: "json \<Rightarrow> error + json" where
  "token_of wrapper_object =
     (case get wrapper_object ''token'' of
        Inl err \<Rightarrow> Inl err
      | Inr v \<Rightarrow> if truthy v then Inr v else get wrapper_object ''access_token'')"

definition Refresh :: "env \<Rightarrow> transport \<Rightarrow> http_request list
    \<Rightarrow> (error + unit) \<times> transport \<times> http_request list" where
  "Refresh e t sent =
     (case service t of
        None \<Rightarrow> (Inl AttributeError, t, sent)
      | Some svc \<Rightarrow>
     (case realm t of
        None \<Rightarrow> (Inl AttributeError, t, sent)
      | Some rlm \<Rightarrow>
     (let req = refresh_request e t svc rlm; sent1 = sent @ [req] in
      case http e sent req of
        HttpRaise \<Rightarrow> (Inl TransportError, t, sent1)
      | HttpReturn resp content0 \<Rightarrow>
          if status resp \<noteq> OK then (Inl TokenRefreshException, t, sent1)
          else
            (let content = decoded e content0 in
             case loads e content of
               None \<Rightarrow> (Inl ValueError, t, sent1)
             | Some wrapper_object \<Rightarrow>
                 (case token_of wrapper_object of
                    Inl err \<Rightarrow> (Inl err, t, sent1)
                  | Inr token \<Rightarrow>
                      if isl (CheckState (token \<noteq> JNull))
                      then (Inl BadStateException, t, sent1)
                      else (Inr (), t\<lparr>creds := Some (Bearer token)\<rparr>, sent1))))))"

text \<open>\<open>Transport(name, creds, transport, action)\<close>: the constructor returns the object
  or raises.\<close>

definition Transport :: "env \<Rightarrow> name \<Rightarrow> provider \<Rightarrow> string \<Rightarrow> http_request list
    \<Rightarrow> (error + transport) \<times> http_request list" where
  "Transport e nm cr act sent =
     (let t = \<lparr>name = nm, basic_creds = cr, action = act, authentication = None,
               service = None, realm = None, creds = None\<rparr>
      in if isl (CheckState (act \<in> set ACTIONS)) then (Inl BadStateException, sent)
         else
           (case Ping e t sent of
              (Inl err, t1, sent1) \<Rightarrow> (Inl err, sent1)
            | (Inr u, t1, sent1) \<Rightarrow>
                (case authentication t1 of
                   None \<Rightarrow> (Inl AttributeError, sent1)
                 | Some a \<Rightarrow>
                     if a = BEARER
                     then (case Refresh e t1 sent1 of
                             (Inl err, t2, sent2) \<Rightarrow> (Inl err, sent2)
                           | (Inr u, t2, sent2) \<Rightarrow> (Inr t2, sent2))
                     else if a = BASIC
                     then (Inr (t1\<lparr>creds := Some (basic_creds t1)\<rparr>), sent1)
                     else (Inr (t1\<lparr>creds := Some Anonymous\<rparr>), sent1))))"

subsection \<open>Requests\<close>

text \<open>\<open>if x:\<close> for an optional string: neither \<open>None\<close> nor empty.\<close>

definition given :: "string option \<Rightarrow> bool" where
  "given x = (case x of None \<Rightarrow> False | Some s \<Rightarrow> s \<noteq> [])"

text \<open>The headers of one attempt, in the order the dict receives them.\<close>

definition request_headers :: "env \<Rightarrow> string \<Rightarrow> string \<Rightarrow> string option \<Rightarrow> string option
    \<Rightarrow> string list option \<Rightarrow> (string \<times> string) list" where
  "request_headers e auth meth bdy content_type accepted_mimes =
     [(''user-agent'', USER_AGENT e)]
     @ (if auth \<noteq> [] then [(''Authorization'', auth)] else [])
     @ (if given bdy
        then [(''content-type'',
               (case content_type of
                  None \<Rightarrow> ''application/json''
                | Some ct \<Rightarrow> if ct \<noteq> [] then ct else ''application/json''))]
        else [])
     @ (case accepted_mimes of None \<Rightarrow> [] | Some ms \<Rightarrow> [(''Accept'', join '','' ms)])
     @ (if meth \<in> set [''POST'', ''PUT''] \<and> \<not> given bdy then [(''content-length'', ''0'')] else [])"

text \<open>\<open>if not method: method = 'GET' if not body else 'PUT'\<close>\<close>

definition method_of :: "string option \<Rightarrow> string option \<Rightarrow> string" where
  "method_of meth bdy =
     (if given meth then the meth else if \<not> given bdy then ''GET'' else ''PUT'')"

definition attempt_request :: "env \<Rightarrow> provider \<Rightarrow> string \<Rightarrow> string option \<Rightarrow> string option
    \<Rightarrow> string option \<Rightarrow> string list option \<Rightarrow> http_request" where
  "attempt_request e c u meth bdy content_type accepted_mimes =
     \<lparr>url = u,
      http_method = method_of meth bdy,
      body = bdy,
      headers = request_headers e (Get e c) (method_of meth bdy) bdy content_type accepted_mimes\<rparr>"

text \<open>
  The loop \<open>for retry_unauthorized in [...]\<close> of \<open>Request\<close>, over the flags that are
  left. The result is the response the loop ends with: \<open>prev\<close> is the response of the
  attempt before, which the statements after the loop would read if the flags ran out.
\<close>

fun attempts :: "env \<Rightarrow> string \<Rightarrow> string option \<Rightarrow> string option \<Rightarrow> string option
    \<Rightarrow> string list option \<Rightarrow> bool list \<Rightarrow> (response \<times> string) option
    \<Rightarrow> transport \<Rightarrow> http_request list
    \<Rightarrow> (error + (response \<times> string) option) \<times> transport \<times> http_request list" where
  "attempts e u meth bdy content_type accepted_mimes [] prev t sent = (Inr prev, t, sent)"
| "attempts e u meth bdy content_type accepted_mimes (retry_unauthorized # flags) prev t sent =
     (case creds t of
        None \<Rightarrow> (Inl AttributeError, t, sent)
      | Some c \<Rightarrow>
          (let req = attempt_request e c u meth bdy content_type accepted_mimes;
               sent1 = sent @ [req]
           in case http e sent req of
                HttpRaise \<Rightarrow> (Inl TransportError, t, sent1)
              | HttpReturn resp content \<Rightarrow>
                  if retry_unauthorized \<and> status resp = UNAUTHORIZED
                  then (case Refresh e t sent1 of
                          (Inl err, t2, sent2) \<Rightarrow> (Inl err, t2, sent2)
                        | (Inr u2, t2, sent2) \<Rightarrow>
                            attempts e u meth bdy content_type accepted_mimes flags
                              (Some (resp, content)) t2 sent2)
                  else (Inr (Some (resp, content)), t, sent1)))"

text \<open>
  The statements after the loop: \<open>resp.status not in accepted_codes\<close> raises
  \<open>TypeError\<close> when \<open>accepted_codes\<close> is \<open>None\<close>.
\<close>

definition accept :: "env \<Rightarrow> int list option \<Rightarrow> response \<Rightarrow> string
    \<Rightarrow> error + response \<times> string" where
  "accept e accepted_codes resp content =
     (case accepted_codes of
        None \<Rightarrow> Inl TypeError
      | Some codes \<Rightarrow>
          if status resp \<notin> set codes
          then Inl (new_V2DiagnosticException e resp content)
          else Inr (resp, content))"

definition Request :: "env \<Rightarrow> string \<Rightarrow> int list option \<Rightarrow> string option \<Rightarrow> string option
    \<Rightarrow> string option \<Rightarrow> string list option \<Rightarrow> transport \<Rightarrow> http_request list
    \<Rightarrow> (error + response \<times> string) \<times> transport \<times> http_request list" where
  "Request e u accepted_codes meth bdy content_type accepted_mimes t sent =
     (case authentication t of
        None \<Rightarrow> (Inl AttributeError, t, sent)
      | Some a \<Rightarrow>
          (case attempts e u meth bdy content_type accepted_mimes [a = BEARER, False] None t sent of
             (Inl err, t1, sent1) \<Rightarrow> (Inl err, t1, sent1)
           | (Inr None, t1, sent1) \<Rightarrow> (Inl UnboundLocalError, t1, sent1)
           | (Inr (Some (resp, content)), t1, sent1) \<Rightarrow>
               (accept e accepted_codes resp content, t1, sent1)))"

text \<open>
  \<open>PaginatedRequest\<close> is a generator. The model runs it for the number of pages its
  consumer asks for and returns the pages yielded, how the generator stands after them,
  and the state.
\<close>

datatype generator = Suspended | Exhausted | Raised error

fun PaginatedRequest :: "nat \<Rightarrow> env \<Rightarrow> string option \<Rightarrow> int list option \<Rightarrow> string option
    \<Rightarrow> string option \<Rightarrow> string option \<Rightarrow> transport \<Rightarrow> http_request list
    \<Rightarrow> (response \<times> string) list \<times> generator \<times> transport \<times> http_request list" where
  "PaginatedRequest 0 e next_page accepted_codes meth bdy content_type t sent =
     ([], Suspended, t, sent)"
| "PaginatedRequest (Suc n) e next_page accepted_codes meth bdy content_type t sent =
     (if \<not> given next_page then ([], Exhausted, t, sent)
      else
        (case Request e (the next_page) accepted_codes meth bdy content_type None t sent of
           (Inl err, t1, sent1) \<Rightarrow> ([], Raised err, t1, sent1)
         | (Inr (resp, content), t1, sent1) \<Rightarrow>
             (case PaginatedRequest n e (ParseNextLinkHeader resp) accepted_codes meth bdy
                     content_type t1 sent1 of
                (pages, g, t2, sent2) \<Rightarrow> ((resp, content) # pages, g, t2, sent2))))"

subsection \<open>An example registry\<close>

text \<open>
  The inputs of the examples below: a name, an HTTP client that answers the requests in
  the order of a script and raises when the script is over, a table for \<open>json.loads\<close>
  on the bodies the examples use (any other body is not JSON for it), and a transport in
  Bearer mode.
\<close>

definition example_name :: name where
  "example_name =
     \<lparr>registry = ''registry.example'', scope = (\<lambda>a. ''repository:library/app:'' @ a)\<rparr>"

definition example_loads :: "string \<Rightarrow> json option" where
  \<open>example_loads s =
     map_of
       [(''{"token":"abc"}'', JObj [(''token'', JStr ''abc'')]),
        (''{"access_token":"abc"}'', JObj [(''access_token'', JStr ''abc'')]),
        (''{}'', JObj []),
        (''[]'', JArr []),
        (''{"errors":[{"code":"DENIED","message":"access denied","detail":"repo:x"}]}'',
         JObj [(''errors'', JArr [JObj [(''code'', JStr ''DENIED''),
                                        (''message'', JStr ''access denied''),
                                        (''detail'', JStr ''repo:x'')]])])] s\<close>

definition script :: "http_result list \<Rightarrow> http_request list \<Rightarrow> http_request \<Rightarrow> http_result" where
  "script rs sent req = (if length sent < length rs then rs ! length sent else HttpRaise)"

definition reply :: "int \<Rightarrow> (string \<times> string) list \<Rightarrow> string \<Rightarrow> http_result" where
  "reply st hs content = HttpReturn \<lparr>status = st, header = hs\<rparr> content"

definition example_env :: "http_result list \<Rightarrow> env" where
  "example_env rs =
     \<lparr>USER_AGENT = ''containerregistry'',
      urlencode = (\<lambda>kvs. join ''&'' (map (\<lambda>kv. fst kv @ ''='' @ snd kv) kvs)),
      decode = Some,
      loads = example_loads,
      text_of = (\<lambda>v. []),
      http = script rs\<rparr>"

definition example_basic_creds :: provider where
  "example_basic_creds = Supplied ''Basic dXNlcjpwdw==''"

definition example_bearer :: transport where
  "example_bearer =
     \<lparr>name = example_name, basic_creds = example_basic_creds, action = PULL,
      authentication = Some BEARER, service = Some ''registry.example'',
      realm = Some ''https://auth.example/token'', creds = Some (Bearer (JStr ''old''))\<rparr>"

definition example_basic :: transport where
  "example_basic =
     \<lparr>name = example_name, basic_creds = example_basic_creds, action = PULL,
      authentication = Some BASIC, service = Some ''registry.example'',
      realm = Some ''Registry'', creds = Some example_basic_creds\<rparr>"

definition example_url :: string where
  "example_url = ''https://registry.example/v2/library/app/tags/list''"

definition denied :: string where
  \<open>denied = ''{"errors":[{"code":"DENIED","message":"access denied","detail":"repo:x"}]}''\<close>

definition example_params :: string where
  \<open>example_params = ''realm="https://auth.example/token",service="registry.example"''\<close>

definition challenge :: "string \<Rightarrow> http_result" where
  "challenge ch = reply 401 [(''www-authenticate'', ch)] []"

section \<open>Properties\<close>

subsection \<open>What a call sends\<close>

lemma Ping_sent: "snd (snd (Ping e t sent)) = sent @ [ping_request e (name t)]"
  by (simp add: Ping_def Let_def split: http_result.splits option.splits prod.splits)

lemma Refresh_Inr:
  assumes "Refresh e t sent = (Inr u, t2, sent2)"
  shows "\<exists>svc rlm tok. service t = Some svc \<and> realm t = Some rlm \<and>
           t2 = t\<lparr>creds := Some (Bearer tok)\<rparr> \<and> sent2 = sent @ [refresh_request e t svc rlm]"
  using assms
  by (auto simp add: Refresh_def Let_def split: http_result.splits option.splits sum.splits if_splits)

subsection \<open>Construction\<close>

text \<open>
  C2. For every valid action, a ping answered with 200 makes the constructor return a
  transport in Anonymous mode, with \<open>none\<close> as realm and as service and with the
  anonymous provider, whose header value is empty; the ping is the only request sent, so
  no token exchange takes place.
\<close>

theorem ping_ok_anonymous:
  assumes "act \<in> set ACTIONS"
    and "http e sent (ping_request e nm) = HttpReturn resp content"
    and "status resp = OK"
  shows "Transport e nm cr act sent =
           (Inr \<lparr>name = nm, basic_creds = cr, action = act, authentication = Some ANONYMOUS,
                 service = Some ''none'', realm = Some ''none'', creds = Some Anonymous\<rparr>,
            sent @ [ping_request e nm])
         \<and> Get e Anonymous = []"
  using assms
  by (simp add: Transport_def Ping_def Let_def CheckState_def ANONYMOUS_def BEARER_def BASIC_def)

theorem ping_ok_anonymous_witness:
  "CATALOG \<in> set ACTIONS
   \<and> http (example_env [reply 200 [] []]) [] (ping_request (example_env [reply 200 [] []]) example_name)
       = HttpReturn \<lparr>status = 200, header = []\<rparr> []
   \<and> Transport (example_env [reply 200 [] []]) example_name example_basic_creds CATALOG [] =
       (Inr \<lparr>name = example_name, basic_creds = example_basic_creds, action = CATALOG,
             authentication = Some [], service = Some ''none'', realm = Some ''none'',
             creds = Some Anonymous\<rparr>,
        [ping_request (example_env [reply 200 [] []]) example_name])"
  using ping_ok_anonymous [of CATALOG "example_env [reply 200 [] []]" "[]" example_name
      "\<lparr>status = 200, header = []\<rparr>" "[]" example_basic_creds]
  by (simp add: ACTIONS_def example_env_def script_def reply_def OK_def ANONYMOUS_def)

subsection \<open>The token exchange\<close>

text \<open>
  C6. A token exchange answered with a status other than 200 raises
  \<open>TokenRefreshException\<close> and leaves the transport as it was, the credential included.
  The exception of a rejected request is never this one.
\<close>

theorem refresh_bad_status:
  assumes "service t = Some svc" and "realm t = Some rlm"
    and "http e sent (refresh_request e t svc rlm) = HttpReturn resp content"
    and "status resp \<noteq> OK"
  shows "Refresh e t sent = (Inl TokenRefreshException, t, sent @ [refresh_request e t svc rlm])
         \<and> new_V2DiagnosticException e resp2 content2 \<noteq> TokenRefreshException"
  using assms by (simp add: Refresh_def Let_def new_V2DiagnosticException_def)

theorem refresh_bad_status_witness:
  "service example_bearer = Some ''registry.example''
   \<and> realm example_bearer = Some ''https://auth.example/token''
   \<and> status \<lparr>status = 503, header = []\<rparr> \<noteq> OK
   \<and> Refresh (example_env [reply 503 [] ''unavailable'']) example_bearer [] =
       (Inl TokenRefreshException, example_bearer,
        [refresh_request (example_env [reply 503 [] ''unavailable'']) example_bearer
           ''registry.example'' ''https://auth.example/token''])"
  using refresh_bad_status [of example_bearer "''registry.example''" "''https://auth.example/token''"
      "example_env [reply 503 [] ''unavailable'']" "[]" "\<lparr>status = 503, header = []\<rparr>" "''unavailable''"]
  by (simp add: example_bearer_def example_env_def script_def reply_def OK_def)

text \<open>
  A token exchange answered with 200 and a body that decodes to an object: when
  \<open>token\<close> is a non-empty string, or \<open>token\<close> is absent and \<open>access_token\<close> is a string,
  the exchange succeeds and installs a Bearer provider of that string, whose header value
  is \<open>Bearer\<close>, a space and the string, and that is the \<open>Authorization\<close> header of the
  next request; when the object has neither field, the exchange raises
  \<open>BadStateException\<close> (malformed response).
\<close>

lemma refresh_installs_token:
  assumes "service t = Some svc" and "realm t = Some rlm"
    and "http e sent (refresh_request e t svc rlm) = HttpReturn resp content"
    and "status resp = OK"
    and "loads e (decoded e content) = Some (JObj kvs)"
  shows "(map_of kvs ''token'' = Some (JStr tok) \<and> tok \<noteq> [] \<or>
          map_of kvs ''token'' = None \<and> map_of kvs ''access_token'' = Some (JStr tok)
          \<longrightarrow> Refresh e t sent = (Inr (), t\<lparr>creds := Some (Bearer (JStr tok))\<rparr>,
                                  sent @ [refresh_request e t svc rlm])
              \<and> Get e (Bearer (JStr tok)) = ''Bearer '' @ tok
              \<and> (''Authorization'', ''Bearer '' @ tok)
                   \<in> set (headers (attempt_request e (Bearer (JStr tok)) u meth bdy ct am)))
       \<and> (map_of kvs ''token'' = None \<and> map_of kvs ''access_token'' = None
          \<longrightarrow> Refresh e t sent = (Inl BadStateException, t, sent @ [refresh_request e t svc rlm]))"
  using assms
  by (auto simp add: Refresh_def Let_def token_of_def get_def get_default_def CheckState_def
        attempt_request_def request_headers_def)

lemma refresh_installs_token_examples:
  \<open>Refresh (example_env [reply 200 [] ''{"token":"abc"}'']) example_bearer [] =
     (Inr (), example_bearer\<lparr>creds := Some (Bearer (JStr ''abc''))\<rparr>,
      [refresh_request (example_env [reply 200 [] ''{"token":"abc"}'']) example_bearer
         ''registry.example'' ''https://auth.example/token''])
   \<and> Refresh (example_env [reply 200 [] ''{"access_token":"abc"}'']) example_bearer [] =
     (Inr (), example_bearer\<lparr>creds := Some (Bearer (JStr ''abc''))\<rparr>,
      [refresh_request (example_env [reply 200 [] ''{"access_token":"abc"}'']) example_bearer
         ''registry.example'' ''https://auth.example/token''])
   \<and> Get (example_env []) (Bearer (JStr ''abc'')) = ''Bearer abc''
   \<and> Refresh (example_env [reply 200 [] ''{}'']) example_bearer [] =
     (Inl BadStateException, example_bearer,
      [refresh_request (example_env [reply 200 [] ''{}'']) example_bearer
         ''registry.example'' ''https://auth.example/token''])\<close>
  using
    refresh_installs_token [of example_bearer "''registry.example''" "''https://auth.example/token''"
      \<open>example_env [reply 200 [] ''{"token":"abc"}'']\<close> "[]" "\<lparr>status = 200, header = []\<rparr>"
      \<open>''{"token":"abc"}''\<close> "[(''token'', JStr ''abc'')]" "''abc''"]
    refresh_installs_token [of example_bearer "''registry.example''" "''https://auth.example/token''"
      \<open>example_env [reply 200 [] ''{"access_token":"abc"}'']\<close> "[]" "\<lparr>status = 200, header = []\<rparr>"
      \<open>''{"access_token":"abc"}''\<close> "[(''access_token'', JStr ''abc'')]" "''abc''"]
    refresh_installs_token [of example_bearer "''registry.example''" "''https://auth.example/token''"
      \<open>example_env [reply 200 [] ''{}'']\<close> "[]" "\<lparr>status = 200, header = []\<rparr>"
      \<open>''{}''\<close> "[]"]
  by (simp add: example_bearer_def example_env_def script_def reply_def OK_def decoded_def
        example_loads_def)

text \<open>
  C7 meets a defect of the code. A token exchange answered with 200 and a body that is
  JSON but not an object (a list, a string, a number, \<open>null\<close>): the body has neither
  \<open>token\<close> nor \<open>access_token\<close>, \<open>wrapper_object.get\<close> does not exist, and the exchange
  raises \<open>AttributeError\<close> before the check \<open>_CheckState(token is not None, 'Malformed
  JSON response: ...')\<close> is reached, not \<open>BadStateException\<close>. The transport is left as
  it was.
\<close>

theorem refresh_non_object:
  assumes "service t = Some svc" and "realm t = Some rlm"
    and "http e sent (refresh_request e t svc rlm) = HttpReturn resp content"
    and "status resp = OK"
    and "loads e (decoded e content) = Some v"
    and "\<forall>kvs. v \<noteq> JObj kvs"
  shows "Refresh e t sent = (Inl AttributeError, t, sent @ [refresh_request e t svc rlm])"
proof -
  have "token_of v = Inl AttributeError"
    using assms(6) by (cases v) (simp_all add: token_of_def get_def get_default_def)
  with assms(1-5) show ?thesis
    by (simp add: Refresh_def Let_def)
qed

theorem refresh_non_object_witness:
  "service example_bearer = Some ''registry.example''
   \<and> realm example_bearer = Some ''https://auth.example/token''
   \<and> loads (example_env [reply 200 [] ''[]'']) (decoded (example_env [reply 200 [] ''[]'']) ''[]'')
       = Some (JArr [])
   \<and> Refresh (example_env [reply 200 [] ''[]'']) example_bearer [] =
       (Inl AttributeError, example_bearer,
        [refresh_request (example_env [reply 200 [] ''[]'']) example_bearer
           ''registry.example'' ''https://auth.example/token''])"
  using refresh_non_object [of example_bearer "''registry.example''" "''https://auth.example/token''"
      "example_env [reply 200 [] ''[]'']" "[]" "\<lparr>status = 200, header = []\<rparr>" "''[]''"
      "JArr []"]
  by (simp add: example_bearer_def example_env_def script_def reply_def OK_def decoded_def
        example_loads_def)

subsection \<open>Diagnostics\<close>

text \<open>
  C8. \<open>_DiagnosticsFromContent\<close> returns a list for every body: each exception raised
  while the body is parsed and read ends in the single diagnostic \<open>UNKNOWN\<close>. When the
  body decodes to an object whose \<open>errors\<close> is an array, the result has one diagnostic
  per element, in order, and \<open>code\<close>, \<open>message\<close> and \<open>detail\<close> of a diagnostic are the
  fields of its element (\<open>None\<close> for a field that is absent). When \<open>json.loads\<close> raises,
  the result is one diagnostic with the code \<open>UNKNOWN\<close> and the body as message: the
  decoded body, which is the body itself where decoding raises.
\<close>

theorem diagnostics_from_content:
  "(loads e (decoded e content) = Some (JObj kvs) \<and> map_of kvs ''errors'' = Some (JArr ds)
      \<longrightarrow> DiagnosticsFromContent e content = map Diagnostic ds)
   \<and> code (Diagnostic (JObj m)) = Inr (case map_of m ''code'' of None \<Rightarrow> JNull | Some v \<Rightarrow> v)
   \<and> message (Diagnostic (JObj m)) = Inr (case map_of m ''message'' of None \<Rightarrow> JNull | Some v \<Rightarrow> v)
   \<and> detail (Diagnostic (JObj m)) = Inr (case map_of m ''detail'' of None \<Rightarrow> JNull | Some v \<Rightarrow> v)
   \<and> (loads e (decoded e content) = None \<or> diagnostics_of e (decoded e content) = Inl err
      \<longrightarrow> DiagnosticsFromContent e content =
            [Diagnostic (JObj [(''code'', JStr ''UNKNOWN''), (''message'', JStr (decoded e content))])]
          \<and> (decode e content = None \<longrightarrow> decoded e content = content))"
  by (auto simp add: DiagnosticsFromContent_def diagnostics_of_def Let_def get_def get_default_def
        decoded_def split: option.splits)

theorem diagnostics_from_content_witness:
  \<open>DiagnosticsFromContent (example_env [])
       ''{"errors":[{"code":"DENIED","message":"access denied","detail":"repo:x"}]}'' =
     [Diagnostic (JObj [(''code'', JStr ''DENIED''), (''message'', JStr ''access denied''),
                        (''detail'', JStr ''repo:x'')])]
   \<and> code (Diagnostic (JObj [(''code'', JStr ''DENIED''), (''message'', JStr ''access denied''),
                              (''detail'', JStr ''repo:x'')])) = Inr (JStr ''DENIED'')
   \<and> message (Diagnostic (JObj [(''code'', JStr ''DENIED''), (''message'', JStr ''access denied''),
                                 (''detail'', JStr ''repo:x'')])) = Inr (JStr ''access denied'')
   \<and> detail (Diagnostic (JObj [(''code'', JStr ''DENIED''), (''message'', JStr ''access denied''),
                                (''detail'', JStr ''repo:x'')])) = Inr (JStr ''repo:x'')
   \<and> loads (example_env []) (decoded (example_env []) ''<html>Service Unavailable</html>'') = None
   \<and> DiagnosticsFromContent (example_env []) ''<html>Service Unavailable</html>'' =
     [Diagnostic (JObj [(''code'', JStr ''UNKNOWN''),
                        (''message'', JStr ''<html>Service Unavailable</html>'')])]\<close>
  using
    diagnostics_from_content [of "example_env []"
      \<open>''{"errors":[{"code":"DENIED","message":"access denied","detail":"repo:x"}]}''\<close>
      "[(''errors'', JArr [JObj [(''code'', JStr ''DENIED''), (''message'', JStr ''access denied''),
                                 (''detail'', JStr ''repo:x'')]])]"
      "[JObj [(''code'', JStr ''DENIED''), (''message'', JStr ''access denied''),
              (''detail'', JStr ''repo:x'')]]"
      "[(''code'', JStr ''DENIED''), (''message'', JStr ''access denied''), (''detail'', JStr ''repo:x'')]"]
    diagnostics_from_content [of "example_env []" "''<html>Service Unavailable</html>''"]
  by (simp add: example_env_def example_loads_def decoded_def)

subsection \<open>Requests\<close>

text \<open>
  C10. A call of \<open>Request\<close> without \<open>accepted_codes\<close> never returns a response: it always
  ends in an exception, and when the attempts themselves end with a response, whatever
  its status, the exception is the \<open>TypeError\<close> of the membership test in \<open>None\<close>.
  \<open>PaginatedRequest\<close> without \<open>accepted_codes\<close> therefore yields no page.
\<close>

theorem request_without_accepted_codes:
  "isl (fst (Request e u None meth bdy ct am t sent))
   \<and> (authentication t = Some a \<and>
      attempts e u meth bdy ct am [a = BEARER, False] None t sent = (Inr (Some rc), t1, sent1)
      \<longrightarrow> Request e u None meth bdy ct am t sent = (Inl TypeError, t1, sent1))
   \<and> fst (PaginatedRequest n e next_page None meth bdy ct t sent) = []"
proof -
  have r: "isl (fst (Request e u None meth bdy ct am t sent))" for u am t sent
    by (simp add: Request_def accept_def split: option.splits prod.splits sum.splits)
  have p: "fst (PaginatedRequest n e next_page None meth bdy ct t sent) = []"
  proof (cases n)
    case 0
    then show ?thesis by simp
  next
    case (Suc k)
    show ?thesis
    proof (cases "given next_page")
      case False
      with Suc show ?thesis by simp
    next
      case True
      obtain x t1 sent1
        where x: "Request e (the next_page) None meth bdy ct None t sent = (x, t1, sent1)"
        by (metis prod_cases3)
      with r [of "the next_page" None t sent] obtain err where "x = Inl err"
        by (cases x) auto
      with x Suc True show ?thesis by simp
    qed
  qed
  show ?thesis using r p
    by (auto simp add: Request_def accept_def split: prod.splits)
qed

theorem request_without_accepted_codes_witness:
  "authentication example_bearer = Some BEARER
   \<and> attempts (example_env [reply 200 [] ''ok'']) ''https://registry.example/v2/_catalog''
        None None None None [BEARER = BEARER, False] None example_bearer [] =
       (Inr (Some (\<lparr>status = 200, header = []\<rparr>, ''ok'')), example_bearer,
        [attempt_request (example_env [reply 200 [] ''ok'']) (Bearer (JStr ''old''))
           ''https://registry.example/v2/_catalog'' None None None None])
   \<and> Request (example_env [reply 200 [] ''ok'']) ''https://registry.example/v2/_catalog''
        None None None None None example_bearer [] =
       (Inl TypeError, example_bearer,
        [attempt_request (example_env [reply 200 [] ''ok'']) (Bearer (JStr ''old''))
           ''https://registry.example/v2/_catalog'' None None None None])
   \<and> fst (PaginatedRequest 3 (example_env [reply 200 [] ''ok''])
             (Some ''https://registry.example/v2/_catalog'') None None None None
             example_bearer []) = []"
  using
    request_without_accepted_codes [of "example_env [reply 200 [] ''ok'']"
      "''https://registry.example/v2/_catalog''" None None None None example_bearer "[]" BEARER
      "(\<lparr>status = 200, header = []\<rparr>, ''ok'')" example_bearer
      "[attempt_request (example_env [reply 200 [] ''ok'']) (Bearer (JStr ''old''))
          ''https://registry.example/v2/_catalog'' None None None None]"
      3 "Some ''https://registry.example/v2/_catalog''"]
  by (simp add: example_bearer_def example_env_def script_def reply_def UNAUTHORIZED_def Let_def)

text \<open>
  C1 (amended). Let the transport have its mode and its credential, and in Bearer mode
  its service and realm, as every constructed transport has. Outside Bearer mode
  \<open>Request\<close> sends exactly one request. In Bearer mode it sends exactly one request when
  the first attempt does not return 401. When the first attempt returns 401, one token
  exchange is made: if it fails, its exception leaves \<open>Request\<close> and the request is not
  sent again; if it succeeds, the request is sent once more with the same URL, method and
  body and the header of the new credential, nothing is sent after it, and its response
  decides the result whatever its status.
\<close>

theorem request_retry:
  assumes "authentication t = Some a" and "creds t = Some c"
    and "a = BEARER \<longrightarrow> service t = Some svc \<and> realm t = Some rlm"
  shows
    "(a \<noteq> BEARER \<or> http e sent (attempt_request e c u meth bdy ct am) = HttpRaise \<or>
      (http e sent (attempt_request e c u meth bdy ct am) = HttpReturn resp content
         \<and> status resp \<noteq> UNAUTHORIZED)
      \<longrightarrow> snd (snd (Request e u codes meth bdy ct am t sent))
            = sent @ [attempt_request e c u meth bdy ct am])
     \<and> (a = BEARER \<and> http e sent (attempt_request e c u meth bdy ct am) = HttpReturn resp content
          \<and> status resp = UNAUTHORIZED
        \<longrightarrow> (case Refresh e t (sent @ [attempt_request e c u meth bdy ct am]) of
               (Inl err, t2, sent2) \<Rightarrow>
                 Request e u codes meth bdy ct am t sent = (Inl err, t2, sent2)
                 \<and> sent2 = sent @ [attempt_request e c u meth bdy ct am, refresh_request e t svc rlm]
             | (Inr un, t2, sent2) \<Rightarrow>
                 (\<exists>tok. t2 = t\<lparr>creds := Some (Bearer tok)\<rparr>
                    \<and> sent2 = sent @ [attempt_request e c u meth bdy ct am, refresh_request e t svc rlm]
                    \<and> Request e u codes meth bdy ct am t sent =
                        ((case http e sent2 (attempt_request e (Bearer tok) u meth bdy ct am) of
                            HttpRaise \<Rightarrow> Inl TransportError
                          | HttpReturn resp2 content2 \<Rightarrow> accept e codes resp2 content2),
                         t2, sent2 @ [attempt_request e (Bearer tok) u meth bdy ct am]))))"
proof -
  let ?req1 = "attempt_request e c u meth bdy ct am"
  have first: "a \<noteq> BEARER \<or> http e sent ?req1 = HttpRaise \<or>
      (http e sent ?req1 = HttpReturn resp content \<and> status resp \<noteq> UNAUTHORIZED)
      \<Longrightarrow> snd (snd (Request e u codes meth bdy ct am t sent)) = sent @ [?req1]"
    using assms(1,2)
    by (auto simp add: Request_def Let_def split: http_result.splits prod.splits sum.splits option.splits)
  have second: "case Refresh e t (sent @ [?req1]) of
               (Inl err, t2, sent2) \<Rightarrow>
                 Request e u codes meth bdy ct am t sent = (Inl err, t2, sent2)
                 \<and> sent2 = sent @ [?req1, refresh_request e t svc rlm]
             | (Inr un, t2, sent2) \<Rightarrow>
                 (\<exists>tok. t2 = t\<lparr>creds := Some (Bearer tok)\<rparr>
                    \<and> sent2 = sent @ [?req1, refresh_request e t svc rlm]
                    \<and> Request e u codes meth bdy ct am t sent =
                        ((case http e sent2 (attempt_request e (Bearer tok) u meth bdy ct am) of
                            HttpRaise \<Rightarrow> Inl TransportError
                          | HttpReturn resp2 content2 \<Rightarrow> accept e codes resp2 content2),
                         t2, sent2 @ [attempt_request e (Bearer tok) u meth bdy ct am]))"
    if b: "a = BEARER" and h: "http e sent ?req1 = HttpReturn resp content"
      and s: "status resp = UNAUTHORIZED"
  proof -
    from b assms(3) have sr: "service t = Some svc" "realm t = Some rlm" by simp_all
    obtain x t2 sent2 where R: "Refresh e t (sent @ [?req1]) = (x, t2, sent2)"
      by (metis prod_cases3)
    have sent2: "sent2 = sent @ [?req1, refresh_request e t svc rlm]"
      using R sr
      by (auto simp add: Refresh_def Let_def
            split: http_result.splits option.splits sum.splits if_splits)
    show ?thesis
    proof (cases x)
      case (Inl err)
      with R sent2 b h s assms(1,2) show ?thesis
        by (simp add: Request_def Let_def)
    next
      case (Inr un)
      with R Refresh_Inr [of e t "sent @ [?req1]" un t2 sent2]
      obtain tok where t2: "t2 = t\<lparr>creds := Some (Bearer tok)\<rparr>" by auto
      from Inr R sent2 b h s assms(1,2) t2 show ?thesis
        by (auto simp add: Request_def Let_def split: http_result.splits)
    qed
  qed
  show ?thesis
  proof (intro conjI impI)
    assume "a \<noteq> BEARER \<or> http e sent ?req1 = HttpRaise \<or>
      (http e sent ?req1 = HttpReturn resp content \<and> status resp \<noteq> UNAUTHORIZED)"
    then show "snd (snd (Request e u codes meth bdy ct am t sent)) = sent @ [?req1]"
      by (rule first)
  next
    assume "a = BEARER \<and> http e sent ?req1 = HttpReturn resp content
              \<and> status resp = UNAUTHORIZED"
    then have "a = BEARER" and "http e sent ?req1 = HttpReturn resp content"
      and "status resp = UNAUTHORIZED" by simp_all
    then show "case Refresh e t (sent @ [?req1]) of
               (Inl err, t2, sent2) \<Rightarrow>
                 Request e u codes meth bdy ct am t sent = (Inl err, t2, sent2)
                 \<and> sent2 = sent @ [?req1, refresh_request e t svc rlm]
             | (Inr un, t2, sent2) \<Rightarrow>
                 (\<exists>tok. t2 = t\<lparr>creds := Some (Bearer tok)\<rparr>
                    \<and> sent2 = sent @ [?req1, refresh_request e t svc rlm]
                    \<and> Request e u codes meth bdy ct am t sent =
                        ((case http e sent2 (attempt_request e (Bearer tok) u meth bdy ct am) of
                            HttpRaise \<Rightarrow> Inl TransportError
                          | HttpReturn resp2 content2 \<Rightarrow> accept e codes resp2 content2),
                         t2, sent2 @ [attempt_request e (Bearer tok) u meth bdy ct am]))"
      by (rule second)
  qed
qed

lemma http_example_env: "http (example_env rs) = script rs"
  by (simp add: example_env_def)

lemma Get_example_env: "Get (example_env rs) c = Get (example_env []) c"
  by (cases "(example_env rs, c)" rule: Get.cases) (simp_all add: example_env_def)

lemma requests_example_env:
  "rs \<noteq> [] \<Longrightarrow> attempt_request (example_env rs) c u m b ct am
                 = attempt_request (example_env []) c u m b ct am"
  "rs \<noteq> [] \<Longrightarrow> refresh_request (example_env rs) t svc rlm
                 = refresh_request (example_env []) t svc rlm"
  using Get_example_env [of rs c] Get_example_env [of rs "basic_creds t"]
  by (simp_all add: attempt_request_def refresh_request_def request_headers_def)
    (simp_all add: example_env_def)

lemma denied_diagnostics:
  "new_V2DiagnosticException (example_env rs) r denied =
     V2DiagnosticException r
       [Diagnostic (JObj [(''code'', JStr ''DENIED''), (''message'', JStr ''access denied''),
                          (''detail'', JStr ''repo:x'')])]"
  by (simp add: new_V2DiagnosticException_def DiagnosticsFromContent_def diagnostics_of_def
        decoded_def example_env_def example_loads_def denied_def get_default_def get_def Let_def)

lemma example_bearer_fields:
  "authentication example_bearer = Some BEARER"
  "creds example_bearer = Some (Bearer (JStr ''old''))"
  "BEARER = BEARER \<longrightarrow> service example_bearer = Some ''registry.example''
     \<and> realm example_bearer = Some ''https://auth.example/token''"
  by (simp_all add: example_bearer_def)

theorem request_retry_witness:
  \<open>Request (example_env [reply 401 [] denied]) example_url (Some [200]) None None None None
       example_basic [] =
     (Inl (V2DiagnosticException \<lparr>status = 401, header = []\<rparr>
             [Diagnostic (JObj [(''code'', JStr ''DENIED''), (''message'', JStr ''access denied''),
                                (''detail'', JStr ''repo:x'')])]),
      example_basic,
      [attempt_request (example_env []) example_basic_creds example_url None None None None])
   \<and> Request (example_env [reply 401 [] denied, reply 200 [] ''{"token":"abc"}'', reply 200 [] ''tags''])
       example_url (Some [200]) None None None None example_bearer [] =
     (Inr (\<lparr>status = 200, header = []\<rparr>, ''tags''),
      example_bearer\<lparr>creds := Some (Bearer (JStr ''abc''))\<rparr>,
      [attempt_request (example_env []) (Bearer (JStr ''old'')) example_url None None None None,
       refresh_request (example_env []) example_bearer ''registry.example''
         ''https://auth.example/token'',
       attempt_request (example_env []) (Bearer (JStr ''abc'')) example_url None None None None])
   \<and> Request (example_env [reply 401 [] denied, reply 200 [] ''{"token":"abc"}'', reply 401 [] denied])
       example_url (Some [200]) None None None None example_bearer [] =
     (Inl (V2DiagnosticException \<lparr>status = 401, header = []\<rparr>
             [Diagnostic (JObj [(''code'', JStr ''DENIED''), (''message'', JStr ''access denied''),
                                (''detail'', JStr ''repo:x'')])]),
      example_bearer\<lparr>creds := Some (Bearer (JStr ''abc''))\<rparr>,
      [attempt_request (example_env []) (Bearer (JStr ''old'')) example_url None None None None,
       refresh_request (example_env []) example_bearer ''registry.example''
         ''https://auth.example/token'',
       attempt_request (example_env []) (Bearer (JStr ''abc'')) example_url None None None None])\<close>
proof -
  let ?E1 = "example_env [reply 401 [] denied]"
  let ?E2 = \<open>example_env [reply 401 [] denied, reply 200 [] ''{"token":"abc"}'', reply 200 [] ''tags'']\<close>
  let ?E3 = \<open>example_env [reply 401 [] denied, reply 200 [] ''{"token":"abc"}'', reply 401 [] denied]\<close>
  have one: "Request ?E1 example_url (Some [200]) None None None None example_basic [] =
     (Inl (V2DiagnosticException \<lparr>status = 401, header = []\<rparr>
             [Diagnostic (JObj [(''code'', JStr ''DENIED''), (''message'', JStr ''access denied''),
                                (''detail'', JStr ''repo:x'')])]),
      example_basic,
      [attempt_request ?E1 example_basic_creds example_url None None None None])"
  proof -
    have "snd (snd (Request ?E1 example_url (Some [200]) None None None None example_basic []))
            = [] @ [attempt_request ?E1 example_basic_creds example_url None None None None]"
      using request_retry [of example_basic BASIC example_basic_creds "''registry.example''"
          "''Registry''" ?E1 "[]" example_url None None None None
          "\<lparr>status = 401, header = []\<rparr>" denied "Some [200]"]
      by (simp add: example_basic_def BASIC_def BEARER_def)
    then show ?thesis
      by (simp add: Request_def example_basic_def BASIC_def BEARER_def Let_def accept_def
            denied_diagnostics http_example_env script_def reply_def)
  qed
  have two: "Request ?E2 example_url (Some [200]) None None None None example_bearer [] =
     (Inr (\<lparr>status = 200, header = []\<rparr>, ''tags''),
      example_bearer\<lparr>creds := Some (Bearer (JStr ''abc''))\<rparr>,
      [attempt_request ?E2 (Bearer (JStr ''old'')) example_url None None None None,
       refresh_request ?E2 example_bearer ''registry.example'' ''https://auth.example/token'',
       attempt_request ?E2 (Bearer (JStr ''abc'')) example_url None None None None])"
  proof -
    let ?req1 = "attempt_request ?E2 (Bearer (JStr ''old'')) example_url None None None None"
    let ?req2 = "attempt_request ?E2 (Bearer (JStr ''abc'')) example_url None None None None"
    let ?rr = "refresh_request ?E2 example_bearer ''registry.example'' ''https://auth.example/token''"
    have h1: "http ?E2 [] ?req1 = HttpReturn \<lparr>status = 401, header = []\<rparr> denied"
      by (simp add: example_env_def script_def reply_def)
    have R: "Refresh ?E2 example_bearer ([] @ [?req1]) =
               (Inr (), example_bearer\<lparr>creds := Some (Bearer (JStr ''abc''))\<rparr>, [?req1, ?rr])"
      by (simp add: Refresh_def example_bearer_def example_env_def script_def reply_def OK_def
            Let_def decoded_def example_loads_def token_of_def get_def get_default_def
            CheckState_def)
    have h2: "http ?E2 [?req1, ?rr] ?req2 = HttpReturn \<lparr>status = 200, header = []\<rparr> ''tags''"
      by (simp add: example_env_def script_def reply_def)
    show ?thesis
      using request_retry [OF example_bearer_fields, of ?E2 "[]" example_url None None None None
          "\<lparr>status = 401, header = []\<rparr>" denied "Some [200]"] h1 R h2
      by (auto simp add: UNAUTHORIZED_def accept_def example_bearer_def)
  qed
  have three: "Request ?E3 example_url (Some [200]) None None None None example_bearer [] =
     (Inl (V2DiagnosticException \<lparr>status = 401, header = []\<rparr>
             [Diagnostic (JObj [(''code'', JStr ''DENIED''), (''message'', JStr ''access denied''),
                                (''detail'', JStr ''repo:x'')])]),
      example_bearer\<lparr>creds := Some (Bearer (JStr ''abc''))\<rparr>,
      [attempt_request ?E3 (Bearer (JStr ''old'')) example_url None None None None,
       refresh_request ?E3 example_bearer ''registry.example'' ''https://auth.example/token'',
       attempt_request ?E3 (Bearer (JStr ''abc'')) example_url None None None None])"
  proof -
    let ?req1 = "attempt_request ?E3 (Bearer (JStr ''old'')) example_url None None None None"
    let ?req2 = "attempt_request ?E3 (Bearer (JStr ''abc'')) example_url None None None None"
    let ?rr = "refresh_request ?E3 example_bearer ''registry.example'' ''https://auth.example/token''"
    have h1: "http ?E3 [] ?req1 = HttpReturn \<lparr>status = 401, header = []\<rparr> denied"
      by (simp add: example_env_def script_def reply_def)
    have R: "Refresh ?E3 example_bearer ([] @ [?req1]) =
               (Inr (), example_bearer\<lparr>creds := Some (Bearer (JStr ''abc''))\<rparr>, [?req1, ?rr])"
      by (simp add: Refresh_def example_bearer_def example_env_def script_def reply_def OK_def
            Let_def decoded_def example_loads_def token_of_def get_def get_default_def
            CheckState_def)
    have h2: "http ?E3 [?req1, ?rr] ?req2 = HttpReturn \<lparr>status = 401, header = []\<rparr> denied"
      by (simp add: example_env_def script_def reply_def)
    show ?thesis
      using request_retry [OF example_bearer_fields, of ?E3 "[]" example_url None None None None
          "\<lparr>status = 401, header = []\<rparr>" denied "Some [200]"] h1 R h2
      by (auto simp add: UNAUTHORIZED_def accept_def example_bearer_def denied_diagnostics)
  qed
  from one two three show ?thesis by (simp add: requests_example_env)
qed

text \<open>
  C1 as stated fails where the token exchange fails: the first attempt returns 401, the
  exchange returns 503, \<open>TokenRefreshException\<close> leaves \<open>Request\<close> and the request has
  been sent once only.
\<close>

theorem request_retry_counterexample:
  "Request (example_env [reply 401 [] denied, reply 503 [] ''unavailable''])
       example_url (Some [200]) None None None None example_bearer [] =
     (Inl TokenRefreshException, example_bearer,
      [attempt_request (example_env []) (Bearer (JStr ''old'')) example_url None None None None,
       refresh_request (example_env []) example_bearer ''registry.example''
         ''https://auth.example/token''])"
proof -
  let ?E = "example_env [reply 401 [] denied, reply 503 [] ''unavailable'']"
  have "Request ?E example_url (Some [200]) None None None None example_bearer [] =
     (Inl TokenRefreshException, example_bearer,
      [attempt_request ?E (Bearer (JStr ''old'')) example_url None None None None,
       refresh_request ?E example_bearer ''registry.example'' ''https://auth.example/token''])"
    by (simp add: Request_def Refresh_def example_bearer_def example_env_def script_def reply_def
          UNAUTHORIZED_def OK_def Let_def)
  then show ?thesis by (simp add: requests_example_env)
qed

subsection \<open>The challenge\<close>

lemma upper_lower: "upper (lower c) = upper c"
  by (simp add: upper_def lower_def ascii_lowercase_def ascii_uppercase_def)

lemma lower_idem: "lower (lower c) = lower c"
  by (simp add: lower_def ascii_lowercase_def ascii_uppercase_def)

lemma capitalize_lower: "capitalize (map lower s) = capitalize s"
  by (cases s) (simp_all add: capitalize_def upper_lower lower_idem)

lemma split1_first:
  "c \<notin> set s \<Longrightarrow> split1 c (s @ c # r) = (s, r)"
  by (induction s) (auto simp add: split1_def)

lemma scan_tokens:
  "foldl scan_token t toks =
     t\<lparr>service := (case challenge_param SERVICE_PFX toks of None \<Rightarrow> service t | Some v \<Rightarrow> Some v),
       realm := (case challenge_param REALM_PFX toks of None \<Rightarrow> realm t | Some v \<Rightarrow> Some v)\<rparr>"
proof (induction toks rule: rev_induct)
  case Nil
  show ?case by (simp add: challenge_param_def)
next
  case (snoc tok toks)
  have excl: "startswith tok REALM_PFX \<Longrightarrow> \<not> startswith tok SERVICE_PFX"
    by (cases tok) (auto simp add: startswith_def REALM_PFX_def SERVICE_PFX_def)
  show ?case
    using snoc excl
    by (simp add: scan_token_def challenge_param_def split: list.splits)
qed

lemma Ping_unauthorized:
  assumes "http e sent (ping_request e (name t)) = HttpReturn resp content"
    and "status resp = UNAUTHORIZED"
    and "map_of (header resp) ''www-authenticate'' = Some (s @ CHR '' '' # r)"
    and "CHR '' '' \<notin> set s"
  shows "Ping e t sent =
     (if capitalize s \<notin> set [BASIC, BEARER]
      then (Inl BadStateException, t\<lparr>authentication := Some (capitalize s)\<rparr>,
            sent @ [ping_request e (name t)])
      else
        (let t2 = t\<lparr>authentication := Some (capitalize s),
                     service := Some (case challenge_param SERVICE_PFX (split (CHR '','') r) of
                                        None \<Rightarrow> registry (name t) | Some v \<Rightarrow> v),
                     realm := (case challenge_param REALM_PFX (split (CHR '','') r) of
                                 None \<Rightarrow> realm t | Some v \<Rightarrow> Some v)\<rparr>
         in case realm t2 of
              None \<Rightarrow> (Inl AttributeError, t2, sent @ [ping_request e (name t)])
            | Some rl \<Rightarrow>
                if rl = [] then (Inl BadStateException, t2, sent @ [ping_request e (name t)])
                else (Inr (), t2, sent @ [ping_request e (name t)])))"
  using assms
  by (simp add: Ping_def Let_def CheckState_def OK_def UNAUTHORIZED_def split1_first scan_tokens
        split: option.splits)

lemma Ping_Inr:
  assumes "Ping e t sent = (Inr un, t1, sent1)"
  shows "\<exists>a svc rlm. authentication t1 = Some a \<and> service t1 = Some svc \<and> realm t1 = Some rlm
           \<and> t1 = t\<lparr>authentication := Some a, service := Some svc, realm := Some rlm\<rparr>"
  using assms
  by (auto simp add: Ping_def Let_def scan_tokens
        split: http_result.splits option.splits if_splits prod.splits)

text \<open>A constructed transport has its mode, service, realm and credential.\<close>

lemma Transport_established:
  assumes "Transport e nm cr act sent = (Inr t, sent1)"
  shows "\<exists>a svc rlm c. authentication t = Some a \<and> service t = Some svc
           \<and> realm t = Some rlm \<and> creds t = Some c"
proof -
  let ?t0 = "\<lparr>name = nm, basic_creds = cr, action = act, authentication = None,
              service = None, realm = None, creds = None\<rparr>"
  obtain x t1 s1 where P: "Ping e ?t0 sent = (x, t1, s1)" by (metis prod_cases3)
  from assms P obtain un where x: "x = Inr un"
    by (cases x) (auto simp add: Transport_def Let_def split: if_splits)
  from Ping_Inr [OF P [unfolded x]] obtain a svc rlm
    where f: "authentication t1 = Some a" "service t1 = Some svc" "realm t1 = Some rlm"
    by blast
  show ?thesis
  proof (cases "a = BEARER")
    case True
    obtain y t2 s2 where R: "Refresh e t1 s1 = (y, t2, s2)" by (metis prod_cases3)
    from assms P x f True R obtain un2 where y: "y = Inr un2" and t: "t = t2"
      by (cases y) (auto simp add: Transport_def Let_def split: if_splits)
    from Refresh_Inr [OF R [unfolded y]] f t show ?thesis by auto
  next
    case False
    with assms P x f show ?thesis
      by (auto simp add: Transport_def Let_def split: if_splits)
  qed
qed

lemma Get_http: "Get (e\<lparr>http := h\<rparr>) c = Get e c"
  by (cases "(e, c)" rule: Get.cases) simp_all

lemma Refresh_http:
  assumes "\<And>q. h sent q = http e sent q"
  shows "Refresh (e\<lparr>http := h\<rparr>) t sent = Refresh e t sent"
proof -
  have rr: "refresh_request (e\<lparr>http := h\<rparr>) t svc rlm = refresh_request e t svc rlm" for svc rlm
    by (simp add: refresh_request_def Get_http)
  have dc: "decoded (e\<lparr>http := h\<rparr>) c = decoded e c" for c
    by (simp add: decoded_def)
  show ?thesis
    using assms
    by (simp add: Refresh_def rr dc Let_def split: option.splits http_result.splits sum.splits)
qed

text \<open>
  C3. Two registries that differ only in the ping's answer, both answers being 401 with
  challenges that differ only in the case of the letters of the scheme token: the
  constructor gives the same result for both, that is the same exception or the same
  transport, with the same mode, realm and service.
\<close>

theorem scheme_case_insensitive:
  assumes "map lower s1 = map lower s2"
    and "CHR '' '' \<notin> set s1" and "CHR '' '' \<notin> set s2"
    and "http e sent (ping_request e nm) = HttpReturn resp1 content1"
    and "h2 sent (ping_request e nm) = HttpReturn resp2 content2"
    and "status resp1 = UNAUTHORIZED" and "status resp2 = UNAUTHORIZED"
    and "map_of (header resp1) ''www-authenticate'' = Some (s1 @ CHR '' '' # r)"
    and "map_of (header resp2) ''www-authenticate'' = Some (s2 @ CHR '' '' # r)"
    and "\<And>q. h2 (sent @ [ping_request e nm]) q = http e (sent @ [ping_request e nm]) q"
  shows "Transport (e\<lparr>http := h2\<rparr>) nm cr act sent = Transport e nm cr act sent"
proof -
  let ?t0 = "\<lparr>name = nm, basic_creds = cr, action = act, authentication = None,
              service = None, realm = None, creds = None\<rparr>"
  let ?e2 = "e\<lparr>http := h2\<rparr>"
  have pr: "ping_request ?e2 nm = ping_request e nm"
    by (simp add: ping_request_def)
  have cap: "capitalize s1 = capitalize s2"
    using assms(1) capitalize_lower [of s1] capitalize_lower [of s2] by simp
  have pr': "ping_request ?e2 (name ?t0) = ping_request e (name ?t0)"
    by (simp add: ping_request_def)
  have h1: "http e sent (ping_request e (name ?t0)) = HttpReturn resp1 content1"
    using assms(4) by simp
  have h2: "http ?e2 sent (ping_request ?e2 (name ?t0)) = HttpReturn resp2 content2"
    using assms(5) pr by simp
  note A = Ping_unauthorized [OF h1 assms(6) assms(8) assms(2), unfolded cap]
  note B = Ping_unauthorized [OF h2 assms(7) assms(9) assms(3), unfolded pr']
  have P1: "Ping e ?t0 sent = Ping ?e2 ?t0 sent"
    unfolding A B ..
  have R: "Refresh ?e2 t (sent @ [ping_request e nm]) = Refresh e t (sent @ [ping_request e nm])"
    for t
    using assms(10) by (rule Refresh_http)
  have s: "snd (snd (Ping e ?t0 sent)) = sent @ [ping_request e nm]"
    using Ping_sent [of e ?t0 sent] by simp
  obtain x t1 s1' where P: "Ping e ?t0 sent = (x, t1, s1')" by (metis prod_cases3)
  with s have s1': "s1' = sent @ [ping_request e nm]" by simp
  show ?thesis
    using P P1 R s1'
    by (simp add: Transport_def Let_def split: sum.splits option.splits)
qed

lemma loads_example_env:
  "loads (example_env rs) = example_loads" "decode (example_env rs) = Some"
  by (simp_all add: example_env_def)

lemma ping_request_example_env:
  "rs \<noteq> [] \<Longrightarrow> ping_request (example_env rs) nm = ping_request (example_env []) nm"
  by (simp add: ping_request_def example_env_def)

lemma Transport_example_bearer:
  \<open>capitalize s = ''Bearer'' \<Longrightarrow> CHR '' '' \<notin> set s \<Longrightarrow>
   Transport (example_env [challenge (s @ '' '' @ example_params), reply 200 [] ''{"token":"abc"}''])
       example_name example_basic_creds PULL [] =
     (Inr \<lparr>name = example_name, basic_creds = example_basic_creds, action = PULL,
           authentication = Some ''Bearer'', service = Some ''registry.example'',
           realm = Some ''https://auth.example/token'', creds = Some (Bearer (JStr ''abc''))\<rparr>,
      [ping_request (example_env []) example_name,
       refresh_request (example_env []) example_bearer ''registry.example''
         ''https://auth.example/token''])\<close>
proof -
  assume cap: \<open>capitalize s = ''Bearer''\<close> and sp: "CHR '' '' \<notin> set s"
  let ?E = \<open>example_env [challenge (s @ '' '' @ example_params), reply 200 [] ''{"token":"abc"}'']\<close>
  let ?t0 = "\<lparr>name = example_name, basic_creds = example_basic_creds, action = PULL,
              authentication = None, service = None, realm = None, creds = None\<rparr>"
  let ?t1 = "\<lparr>name = example_name, basic_creds = example_basic_creds, action = PULL,
              authentication = Some ''Bearer'', service = Some ''registry.example'',
              realm = Some ''https://auth.example/token'', creds = None\<rparr>"
  have h: "http ?E [] (ping_request ?E (name ?t0)) =
             HttpReturn \<lparr>status = 401,
                         header = [(''www-authenticate'', s @ CHR '' '' # example_params)]\<rparr> []"
    by (simp add: http_example_env script_def challenge_def reply_def)
  have cp: "challenge_param REALM_PFX (split (CHR '','') example_params)
              = Some ''https://auth.example/token''"
    "challenge_param SERVICE_PFX (split (CHR '','') example_params) = Some ''registry.example''"
    by (simp_all add: challenge_param_def example_params_def split_def startswith_def
          REALM_PFX_def SERVICE_PFX_def strip_def)
  have P: "Ping ?E ?t0 [] = (Inr (), ?t1, [ping_request ?E example_name])"
    using Ping_unauthorized [OF h _ _ sp, of example_params]
    by (simp add: cap cp UNAUTHORIZED_def BEARER_def BASIC_def)
  have R: "Refresh ?E ?t1 [ping_request ?E example_name] =
             (Inr (), ?t1\<lparr>creds := Some (Bearer (JStr ''abc''))\<rparr>,
              [ping_request ?E example_name,
               refresh_request ?E ?t1 ''registry.example'' ''https://auth.example/token''])"
    by (simp add: Refresh_def http_example_env script_def reply_def OK_def Let_def token_of_def
          get_def get_default_def CheckState_def loads_example_env decoded_def example_loads_def)
  have rr: "refresh_request (example_env rs) ?t1 svc rlm
              = refresh_request (example_env []) example_bearer svc rlm" for rs svc rlm
    using Get_example_env [of rs example_basic_creds]
    by (simp add: refresh_request_def example_bearer_def Scope_def) (simp add: example_env_def)
  show ?thesis
    using P R
    by (simp add: Transport_def Let_def ACTIONS_def CheckState_def BEARER_def rr
          ping_request_example_env)
qed

theorem scheme_case_insensitive_witness:
  \<open>Transport (example_env [challenge (''bearer'' @ '' '' @ example_params),
                            reply 200 [] ''{"token":"abc"}''])
       example_name example_basic_creds PULL [] =
   Transport (example_env [challenge (''BEARER'' @ '' '' @ example_params),
                            reply 200 [] ''{"token":"abc"}''])
       example_name example_basic_creds PULL []
   \<and> Transport (example_env [challenge (''BEARER'' @ '' '' @ example_params),
                              reply 200 [] ''{"token":"abc"}''])
       example_name example_basic_creds PULL [] =
     (Inr \<lparr>name = example_name, basic_creds = example_basic_creds, action = PULL,
           authentication = Some ''Bearer'', service = Some ''registry.example'',
           realm = Some ''https://auth.example/token'', creds = Some (Bearer (JStr ''abc''))\<rparr>,
      [ping_request (example_env []) example_name,
       refresh_request (example_env []) example_bearer ''registry.example''
         ''https://auth.example/token''])\<close>
proof -
  let ?rs1 = \<open>[challenge (''BEARER'' @ '' '' @ example_params), reply 200 [] ''{"token":"abc"}'']\<close>
  let ?rs2 = \<open>[challenge (''bearer'' @ '' '' @ example_params), reply 200 [] ''{"token":"abc"}'']\<close>
  have e2: "example_env ?rs2 = (example_env ?rs1)\<lparr>http := script ?rs2\<rparr>"
    by (simp add: example_env_def)
  have "Transport ((example_env ?rs1)\<lparr>http := script ?rs2\<rparr>) example_name example_basic_creds PULL []
          = Transport (example_env ?rs1) example_name example_basic_creds PULL []"
    using scheme_case_insensitive [of "''BEARER''" "''bearer''" "example_env ?rs1" "[]"
        example_name
        "\<lparr>status = 401, header = [(''www-authenticate'', ''BEARER'' @ '' '' @ example_params)]\<rparr>"
        "[]" "script ?rs2"
        "\<lparr>status = 401, header = [(''www-authenticate'', ''bearer'' @ '' '' @ example_params)]\<rparr>"
        "[]" example_params example_basic_creds PULL]
    by (simp add: http_example_env script_def challenge_def reply_def UNAUTHORIZED_def lower_def
          ascii_lowercase_def ascii_uppercase_def)
  with e2 Transport_example_bearer [of "''BEARER''"] show ?thesis
    by (simp add: capitalize_def upper_def lower_def ascii_lowercase_def ascii_uppercase_def)
qed

lemma challenge_param_None:
  "(challenge_param pfx toks = None) = (\<forall>tok\<in>set toks. \<not> startswith tok pfx)"
proof -
  have "(challenge_param pfx toks = None) = (rev (filter (\<lambda>tok. startswith tok pfx) toks) = [])"
    by (simp add: challenge_param_def split: list.splits)
  then show ?thesis by (simp add: filter_empty_conv)
qed

text \<open>
  C4 meets a defect of the code. A 401 ping with a Bearer challenge whose parameter list
  has no token that starts with \<open>realm=\<close>: the loop never assigns \<open>_realm\<close>, the check
  \<open>_CheckState(self._realm, ...)\<close> reads an attribute that does not exist, and the
  constructor raises \<open>AttributeError\<close>, not \<open>BadStateException\<close>.
\<close>

theorem bearer_challenge_without_realm:
  assumes "act \<in> set ACTIONS"
    and "http e sent (ping_request e nm) = HttpReturn resp content"
    and "status resp = UNAUTHORIZED"
    and "map_of (header resp) ''www-authenticate'' = Some (s @ CHR '' '' # r)"
    and "CHR '' '' \<notin> set s"
    and "capitalize s = BEARER"
    and "\<forall>tok\<in>set (split (CHR '','') r). \<not> startswith tok REALM_PFX"
  shows "Transport e nm cr act sent = (Inl AttributeError, sent @ [ping_request e nm])"
proof -
  let ?t0 = "\<lparr>name = nm, basic_creds = cr, action = act, authentication = None,
              service = None, realm = None, creds = None\<rparr>"
  have h: "http e sent (ping_request e (name ?t0)) = HttpReturn resp content"
    using assms(2) by simp
  have n: "challenge_param REALM_PFX (split (CHR '','') r) = None"
    using assms(7) by (simp add: challenge_param_None)
  have "\<exists>t1. Ping e ?t0 sent = (Inl AttributeError, t1, sent @ [ping_request e nm])"
    unfolding Ping_unauthorized [OF h assms(3) assms(4) assms(5)]
    by (simp add: assms(6) n Let_def)
  then obtain t1 where "Ping e ?t0 sent = (Inl AttributeError, t1, sent @ [ping_request e nm])"
    by blast
  with assms(1) show ?thesis
    by (simp add: Transport_def Let_def CheckState_def)
qed

theorem bearer_challenge_without_realm_witness:
  \<open>Transport (example_env [challenge ''Bearer service="registry.example"''])
       example_name example_basic_creds PULL [] =
     (Inl AttributeError, [ping_request (example_env []) example_name])\<close>
  using bearer_challenge_without_realm [of PULL
      \<open>example_env [challenge ''Bearer service="registry.example"'']\<close> "[]" example_name
      \<open>\<lparr>status = 401, header = [(''www-authenticate'', ''Bearer service="registry.example"'')]\<rparr>\<close>
      "[]" "''Bearer''" \<open>''service="registry.example"''\<close> example_basic_creds]
  by (simp add: ACTIONS_def http_example_env script_def challenge_def reply_def UNAUTHORIZED_def
        capitalize_def upper_def lower_def ascii_lowercase_def ascii_uppercase_def BEARER_def
        split_def startswith_def REALM_PFX_def ping_request_example_env)

text \<open>
  C5 (amended). A 401 ping whose challenge scheme capitalizes to \<open>Basic\<close>: the parameter
  list is scanned as for Bearer. When it has a token that starts with \<open>realm=\<close>, the
  last of them gives the realm: if that realm is empty the constructor raises
  \<open>BadStateException\<close>; otherwise it returns a transport in Basic mode with that realm,
  the scanned service (the registry host when there is none) and the provider the caller
  supplied, and the ping is the only request sent.
\<close>

theorem basic_challenge_scanned:
  assumes "act \<in> set ACTIONS"
    and "http e sent (ping_request e nm) = HttpReturn resp content"
    and "status resp = UNAUTHORIZED"
    and "map_of (header resp) ''www-authenticate'' = Some (s @ CHR '' '' # r)"
    and "CHR '' '' \<notin> set s"
    and "capitalize s = BASIC"
    and "challenge_param REALM_PFX (split (CHR '','') r) = Some rl"
  shows "Transport e nm cr act sent =
           (if rl = [] then Inl BadStateException
            else Inr \<lparr>name = nm, basic_creds = cr, action = act,
                      authentication = Some BASIC,
                      service = Some (case challenge_param SERVICE_PFX (split (CHR '','') r) of
                                        None \<Rightarrow> registry nm | Some v \<Rightarrow> v),
                      realm = Some rl, creds = Some cr\<rparr>,
            sent @ [ping_request e nm])"
proof -
  let ?t0 = "\<lparr>name = nm, basic_creds = cr, action = act, authentication = None,
              service = None, realm = None, creds = None\<rparr>"
  have h: "http e sent (ping_request e (name ?t0)) = HttpReturn resp content"
    using assms(2) by simp
  have P: "Ping e ?t0 sent =
      (if rl = [] then Inl BadStateException else Inr (),
       \<lparr>name = nm, basic_creds = cr, action = act, authentication = Some BASIC,
         service = Some (case challenge_param SERVICE_PFX (split (CHR '','') r) of
                           None \<Rightarrow> registry nm | Some v \<Rightarrow> v),
         realm = Some rl, creds = None\<rparr>,
       sent @ [ping_request e nm])"
    unfolding Ping_unauthorized [OF h assms(3) assms(4) assms(5)]
    by (simp add: assms(6) assms(7) Let_def split: option.splits)
  show ?thesis
    using assms(1)
    by (simp add: Transport_def P Let_def CheckState_def BASIC_def BEARER_def)
qed

theorem basic_challenge_scanned_witness:
  \<open>Transport (example_env [challenge ''Basic realm="Registry"''])
       example_name example_basic_creds PULL [] =
     (Inr example_basic, [ping_request (example_env []) example_name])\<close>
  using basic_challenge_scanned [of PULL
      \<open>example_env [challenge ''Basic realm="Registry"'']\<close> "[]" example_name
      \<open>\<lparr>status = 401, header = [(''www-authenticate'', ''Basic realm="Registry"'')]\<rparr>\<close>
      "[]" "''Basic''" \<open>''realm="Registry"''\<close> "''Registry''" example_basic_creds]
  by (simp add: ACTIONS_def http_example_env script_def challenge_def reply_def UNAUTHORIZED_def
        capitalize_def upper_def lower_def ascii_lowercase_def ascii_uppercase_def BASIC_def
        split_def startswith_def REALM_PFX_def SERVICE_PFX_def strip_def challenge_param_def
        ping_request_example_env example_basic_def example_name_def)

text \<open>
  C5 as stated fails: the challenge \<open>Basic realm=""\<close> has the scheme Basic, and the
  constructor raises \<open>BadStateException\<close> because of the content of the parameters.
\<close>

theorem basic_challenge_counterexample:
  \<open>Transport (example_env [challenge ''Basic realm=""''])
       example_name example_basic_creds PULL [] =
     (Inl BadStateException, [ping_request (example_env []) example_name])\<close>
proof -
  let ?E = \<open>example_env [challenge ''Basic realm=""'']\<close>
  have "Transport ?E example_name example_basic_creds PULL [] =
          (Inl BadStateException, [ping_request ?E example_name])"
    by (simp add: Transport_def Ping_def ACTIONS_def CheckState_def http_example_env script_def
          challenge_def reply_def OK_def UNAUTHORIZED_def Let_def split1_def capitalize_def
          upper_def lower_def ascii_lowercase_def ascii_uppercase_def BASIC_def BEARER_def
          split_def scan_token_def startswith_def REALM_PFX_def SERVICE_PFX_def strip_def)
  then show ?thesis by (simp add: ping_request_example_env)
qed

subsection \<open>The \<open>link\<close> header\<close>

lemma rmatch_lits: "rmatch (lits p @ r) (p @ s) = rmatch r s"
  by (induction p) (simp_all add: lits_def)

lemma rmatch_lits_Some:
  "rmatch (lits p @ r) s = Some m \<Longrightarrow> \<exists>s'. s = p @ s' \<and> rmatch r s' = Some m"
proof (induction p arbitrary: s)
  case Nil
  then show ?case by (simp add: lits_def)
next
  case (Cons c p)
  then show ?case
    by (cases s) (auto simp add: lits_def split: if_splits)
qed

lemma rmatch_star_dot_end: "rmatch [Star Dot] s = Some []"
  by (induction s) simp_all

lemma spaces_then_rel:
  assumes "set ws \<subseteq> set whitespace"
  shows \<open>rmatch (Star Space # lits ''rel="next"'' @ [Star Dot]) (ws @ ''rel="next"'' @ b) = Some []\<close>
  using assms
proof (induction ws)
  case Nil
  have \<open>rmatch (lits ''rel="next"'' @ [Star Dot]) (''rel="next"'' @ b) = Some []\<close>
    by (simp only: rmatch_lits rmatch_star_dot_end)
  then show ?case by (simp add: whitespace_def)
next
  case (Cons c ws)
  then show ?case by simp
qed

lemma spaces_then_rel_D:
  \<open>rmatch (Star Space # lits ''rel="next"'' @ [Star Dot]) s = Some m \<Longrightarrow>
   \<exists>ws b. s = ws @ ''rel="next"'' @ b \<and> set ws \<subseteq> set whitespace\<close>
proof (induction s)
  case Nil
  then show ?case by (simp add: lits_def)
next
  case (Cons c s)
  show ?case
  proof (cases \<open>rmatch (lits ''rel="next"'' @ [Star Dot]) (c # s) = None\<close>)
    case False
    then obtain m' where \<open>rmatch (lits ''rel="next"'' @ [Star Dot]) (c # s) = Some m'\<close>
      by auto
    from rmatch_lits_Some [OF this] obtain b where \<open>c # s = ''rel="next"'' @ b\<close> by blast
    then have \<open>c # s = [] @ ''rel="next"'' @ b \<and> set [] \<subseteq> set whitespace\<close> by simp
    then show ?thesis by blast
  next
    case True
    with Cons.prems have ok: "ok Space c"
      and r: \<open>rmatch (Star Space # lits ''rel="next"'' @ [Star Dot]) s = Some m\<close>
      by (auto split: if_splits option.splits)
    from Cons.IH [OF r] obtain ws b
      where \<open>s = ws @ ''rel="next"'' @ b\<close> and "set ws \<subseteq> set whitespace" by blast
    with ok have \<open>c # s = (c # ws) @ ''rel="next"'' @ b \<and> set (c # ws) \<subseteq> set whitespace\<close>
      by simp
    then show ?thesis by blast
  qed
qed

lemma next_tail_iff:
  \<open>(rmatch next_tail s \<noteq> None) =
   (\<exists>ws b. s = ''>;'' @ ws @ ''rel="next"'' @ b \<and> set ws \<subseteq> set whitespace)\<close>
proof
  assume \<open>rmatch next_tail s \<noteq> None\<close>
  then obtain m where m: "rmatch next_tail s = Some m" by auto
  then obtain s' where s: "s = ''>;'' @ s'"
    and \<open>rmatch (Star Space # lits ''rel="next"'' @ [Star Dot]) s' = Some m\<close>
    by (cases s; cases "tl s") (auto simp add: next_tail_def split: if_splits)
  from spaces_then_rel_D [OF this(2)] s
  show \<open>\<exists>ws b. s = ''>;'' @ ws @ ''rel="next"'' @ b \<and> set ws \<subseteq> set whitespace\<close>
    by auto
next
  assume \<open>\<exists>ws b. s = ''>;'' @ ws @ ''rel="next"'' @ b \<and> set ws \<subseteq> set whitespace\<close>
  then obtain ws b where \<open>s = ''>;'' @ ws @ ''rel="next"'' @ b\<close>
    and "set ws \<subseteq> set whitespace" by blast
  with spaces_then_rel [of ws b] show \<open>rmatch next_tail s \<noteq> None\<close>
    by (simp add: next_tail_def)
qed

lemma next_tail_marks: "rmatch next_tail s = Some m \<Longrightarrow> m = []"
proof -
  assume m: "rmatch next_tail s = Some m"
  then have "rmatch next_tail s \<noteq> None" by simp
  then obtain ws b where \<open>s = ''>;'' @ ws @ ''rel="next"'' @ b\<close>
    and "set ws \<subseteq> set whitespace" unfolding next_tail_iff by blast
  with spaces_then_rel [of ws b] m show ?thesis
    by (simp add: next_tail_def)
qed

lemma next_tail_first: "rmatch next_tail (c # s) \<noteq> None \<Longrightarrow> c = CHR ''>''"
  by (auto simp add: next_tail_def split: if_splits)

lemma never_next_suffix: "never_next (a @ b) \<Longrightarrow> never_next b"
  by (induction a) simp_all

lemma never_next_iff: "never_next z = (\<forall>a b. z = a @ b \<longrightarrow> rmatch next_tail b = None)"
proof (induction z)
  case Nil
  show ?case by simp
next
  case (Cons c z)
  show ?case
  proof
    assume n: "never_next (c # z)"
    show "\<forall>a b. c # z = a @ b \<longrightarrow> rmatch next_tail b = None"
    proof (intro allI impI)
      fix a b assume e: "c # z = a @ b"
      show "rmatch next_tail b = None"
      proof (cases a)
        case Nil
        with e n show ?thesis by auto
      next
        case (Cons d a')
        with e have "z = a' @ b" by simp
        with n Cons.IH show ?thesis by auto
      qed
    qed
  next
    assume h: "\<forall>a b. c # z = a @ b \<longrightarrow> rmatch next_tail b = None"
    then have 1: "rmatch next_tail (c # z) = None" by (metis append_Nil)
    have "\<forall>a b. z = a @ b \<longrightarrow> rmatch next_tail b = None"
      using h by (metis append_Cons)
    with Cons.IH 1 show "never_next (c # z)" by simp
  qed
qed

lemma never_next_occurs:
  \<open>never_next z =
   (\<not> (\<exists>a ws b. z = a @ ''>;'' @ ws @ ''rel="next"'' @ b \<and> set ws \<subseteq> set whitespace))\<close>
proof
  assume n: "never_next z"
  show \<open>\<not> (\<exists>a ws b. z = a @ ''>;'' @ ws @ ''rel="next"'' @ b \<and> set ws \<subseteq> set whitespace)\<close>
  proof
    assume \<open>\<exists>a ws b. z = a @ ''>;'' @ ws @ ''rel="next"'' @ b \<and> set ws \<subseteq> set whitespace\<close>
    then obtain a ws b where z: \<open>z = a @ (''>;'' @ ws @ ''rel="next"'' @ b)\<close>
      and w: "set ws \<subseteq> set whitespace" by blast
    from w have \<open>rmatch next_tail (''>;'' @ ws @ ''rel="next"'' @ b) \<noteq> None\<close>
      unfolding next_tail_iff by blast
    moreover from n have \<open>rmatch next_tail (''>;'' @ ws @ ''rel="next"'' @ b) = None\<close>
      unfolding never_next_iff using z by blast
    ultimately show False by simp
  qed
next
  assume h: \<open>\<not> (\<exists>a ws b. z = a @ ''>;'' @ ws @ ''rel="next"'' @ b \<and> set ws \<subseteq> set whitespace)\<close>
  show "never_next z"
    unfolding never_next_iff
  proof (intro allI impI)
    fix a b assume zab: "z = a @ b"
    show "rmatch next_tail b = None"
    proof (rule ccontr)
      assume "rmatch next_tail b \<noteq> None"
      then obtain ws c where \<open>b = ''>;'' @ ws @ ''rel="next"'' @ c\<close>
        and "set ws \<subseteq> set whitespace"
        unfolding next_tail_iff by blast
      with zab h show False by blast
    qed
  qed
qed

lemma never_next_prepend:
  "never_next y \<Longrightarrow> CHR ''>'' \<notin> set x \<Longrightarrow> never_next (x @ y)"
proof (induction x)
  case Nil
  then show ?case by simp
next
  case (Cons c x)
  have "rmatch next_tail (c # x @ y) = None"
  proof (rule ccontr)
    assume "rmatch next_tail (c # x @ y) \<noteq> None"
    then have "c = CHR ''>''" by (rule next_tail_first)
    with Cons.prems show False by simp
  qed
  with Cons show ?case by simp
qed

lemma no_match_star:
  "never_next z \<Longrightarrow> rmatch (Star Dot # Mark # next_tail) z = None"
  by (induction z) auto

lemma no_match_plus:
  "never_next z \<Longrightarrow> rmatch (Plus Dot # Mark # next_tail) z = None"
  by (cases z) (simp_all add: no_match_star)

lemma no_match_re:
  "(\<forall>a b. z = a @ CHR ''<'' # b \<longrightarrow> never_next b) \<Longrightarrow>
   rmatch (Star Dot # One (Lit (CHR ''<'')) # Mark # Plus Dot # Mark # next_tail) z = None"
proof (induction z)
  case Nil
  show ?case by simp
next
  case (Cons c z)
  have "\<forall>a b. z = a @ CHR ''<'' # b \<longrightarrow> never_next b"
    using Cons.prems by (metis append_Cons)
  with Cons.IH
  have 1: "rmatch (Star Dot # One (Lit (CHR ''<'')) # Mark # Plus Dot # Mark # next_tail) z = None"
    by simp
  have 2: "c = CHR ''<'' \<Longrightarrow> never_next z"
    using Cons.prems by (metis append_Nil)
  show ?case using 1 2 by (simp add: no_match_plus)
qed

lemma match_star_here:
  assumes "rmatch next_tail m \<noteq> None" and "never_next (tl m)"
  shows "rmatch (Star Dot # Mark # next_tail) m = Some [m]"
proof (cases m)
  case Nil
  with assms(1) show ?thesis by (simp add: next_tail_def)
next
  case (Cons c cs)
  from assms(1) obtain k where k: "rmatch next_tail m = Some k" by auto
  with next_tail_marks [OF k] have "rmatch next_tail m = Some []" by simp
  with Cons assms(2) show ?thesis by (auto simp add: no_match_star)
qed

lemma match_star_before:
  assumes "rmatch next_tail m \<noteq> None" and "never_next (tl m)" and "CHR 0x0A \<notin> set u"
  shows "rmatch (Star Dot # Mark # next_tail) (u @ m) = Some [m]"
  using assms(3)
proof (induction u)
  case Nil
  show ?case using match_star_here [OF assms(1,2)] by simp
next
  case (Cons c u)
  then show ?case by auto
qed

lemma match_group:
  assumes "rmatch next_tail m \<noteq> None" and "never_next (tl m)"
    and "CHR 0x0A \<notin> set u" and "u \<noteq> []"
  shows "rmatch (One (Lit (CHR ''<'')) # Mark # Plus Dot # Mark # next_tail) (CHR ''<'' # u @ m)
           = Some [u @ m, m]"
proof (cases u)
  case Nil
  with assms(4) show ?thesis by simp
next
  case (Cons c u')
  with assms(3) have "CHR 0x0A \<notin> set u'" and "c \<noteq> CHR 0x0A" by auto
  with match_star_before [OF assms(1,2), of u'] Cons show ?thesis by auto
qed

lemma match_re:
  assumes "rmatch next_tail m \<noteq> None" and "never_next (tl m)"
    and "CHR 0x0A \<notin> set u" and "u \<noteq> []" and "CHR 0x0A \<notin> set pre"
    and "rmatch (Star Dot # One (Lit (CHR ''<'')) # Mark # Plus Dot # Mark # next_tail) (u @ m) = None"
  shows "rmatch next_link_re (pre @ CHR ''<'' # u @ m) = Some [u @ m, m]"
  using assms(5)
proof (induction pre)
  case Nil
  show ?case
    using match_group [OF assms(1-4)] assms(6) by (simp add: next_link_re_def)
next
  case (Cons c pre)
  then show ?case by (auto simp add: next_link_re_def)
qed

lemma append_eq_later:
  "x @ y = a @ c # b \<Longrightarrow> c \<notin> set x \<Longrightarrow> \<exists>a'. y = a' @ c # b"
proof (induction x arbitrary: a)
  case Nil
  then show ?case by auto
next
  case (Cons d x)
  then show ?case by (cases a) auto
qed

lemma no_match_never_next:
  assumes "never_next link"
  shows "rmatch next_link_re link = None"
proof -
  have "\<forall>a b. link = a @ CHR ''<'' # b \<longrightarrow> never_next b"
  proof (intro allI impI)
    fix a b assume "link = a @ CHR ''<'' # b"
    then have "link = (a @ [CHR ''<'']) @ b" by simp
    with assms show "never_next b" using never_next_suffix by blast
  qed
  then show ?thesis
    using no_match_re [of link] by (simp add: next_link_re_def)
qed

lemma later_open_in_post:
  assumes u: "CHR ''<'' \<notin> set u" and w: "CHR ''<'' \<notin> set ws" and n: "never_next post"
    and e: \<open>u @ ''>;'' @ ws @ ''rel="next"'' @ post = a @ CHR ''<'' # b\<close>
  shows "never_next b"
proof -
  have 1: \<open>(u @ ''>;'' @ ws @ ''rel="next"'') @ post = a @ CHR ''<'' # b\<close>
    using e by (simp only: append_assoc)
  have 2: \<open>CHR ''<'' \<notin> set (u @ ''>;'' @ ws @ ''rel="next"'')\<close>
    using u w by simp
  from append_eq_later [OF 1 2] obtain a' where "post = a' @ CHR ''<'' # b" ..
  then have "never_next ((a' @ [CHR ''<'']) @ b)" using n by simp
  then show "never_next b" by (rule never_next_suffix)
qed

lemma match_last_next:
  assumes "CHR 0x0A \<notin> set pre" and "u \<noteq> []" and "CHR 0x0A \<notin> set u"
    and "CHR ''<'' \<notin> set u" and "set ws \<subseteq> set whitespace" and "never_next post"
  shows \<open>rmatch next_link_re (pre @ ''<'' @ u @ ''>;'' @ ws @ ''rel="next"'' @ post) =
          Some [u @ ''>;'' @ ws @ ''rel="next"'' @ post, ''>;'' @ ws @ ''rel="next"'' @ post]\<close>
proof -
  let ?m = \<open>''>;'' @ ws @ ''rel="next"'' @ post\<close>
  have t: "rmatch next_tail ?m \<noteq> None"
    unfolding next_tail_iff
    by (rule exI [of _ ws], rule exI [of _ post]) (simp add: assms(5))
  have "CHR ''>'' \<notin> set whitespace" and "CHR ''<'' \<notin> set whitespace"
    by (simp_all add: whitespace_def)
  with assms(5) have gt: "CHR ''>'' \<notin> set ws" and lt: "CHR ''<'' \<notin> set ws"
    by blast+
  have \<open>never_next ((CHR '';'' # ws @ ''rel="next"'') @ post)\<close>
    using assms(6) gt by (rule_tac never_next_prepend) simp_all
  then have n: "never_next (tl ?m)" by simp
  have later: "\<forall>a b. u @ ?m = a @ CHR ''<'' # b \<longrightarrow> never_next b"
    using later_open_in_post [OF assms(4) lt assms(6)] by blast
  have none: "rmatch (Star Dot # One (Lit (CHR ''<'')) # Mark # Plus Dot # Mark # next_tail) (u @ ?m)
                = None"
    using later by (rule no_match_re)
  from match_re [OF t n assms(3) assms(2) assms(1) none] show ?thesis by simp
qed

text \<open>
  C9 (amended). A response without a \<open>link\<close> header, with an empty one, or with one in
  which \<open>>;\<close>, whitespace and \<open>rel="next"\<close> occur nowhere in a row, gives \<open>None\<close>. A
  header that holds \<open><URL>;\<close>, whitespace and \<open>rel="next"\<close> with no such occurrence after
  it (the last one), the URL not empty and without \<open><\<close>, and no line break in the URL or
  before it, gives that URL, whatever entries come before it.
\<close>

theorem next_link_last:
  \<open>(map_of (header resp) ''link'' = None \<or> map_of (header resp) ''link'' = Some []
      \<longrightarrow> ParseNextLinkHeader resp = None)
   \<and> (map_of (header resp) ''link'' = Some link
       \<and> \<not> (\<exists>a ws b. link = a @ ''>;'' @ ws @ ''rel="next"'' @ b \<and> set ws \<subseteq> set whitespace)
      \<longrightarrow> ParseNextLinkHeader resp = None)
   \<and> (map_of (header resp) ''link'' = Some (pre @ ''<'' @ u @ ''>;'' @ ws @ ''rel="next"'' @ post)
       \<and> CHR 0x0A \<notin> set pre \<and> u \<noteq> [] \<and> CHR 0x0A \<notin> set u \<and> CHR ''<'' \<notin> set u
       \<and> set ws \<subseteq> set whitespace
       \<and> \<not> (\<exists>a ws' b. post = a @ ''>;'' @ ws' @ ''rel="next"'' @ b \<and> set ws' \<subseteq> set whitespace)
      \<longrightarrow> ParseNextLinkHeader resp = Some u)\<close>
proof (intro conjI impI)
  assume "map_of (header resp) ''link'' = None \<or> map_of (header resp) ''link'' = Some []"
  then show "ParseNextLinkHeader resp = None"
    by (auto simp add: ParseNextLinkHeader_def)
next
  assume a: \<open>map_of (header resp) ''link'' = Some link
       \<and> \<not> (\<exists>a ws b. link = a @ ''>;'' @ ws @ ''rel="next"'' @ b \<and> set ws \<subseteq> set whitespace)\<close>
  then have "never_next link" unfolding never_next_occurs by blast
  then have "rmatch next_link_re link = None" by (rule no_match_never_next)
  with a show "ParseNextLinkHeader resp = None"
    by (simp add: ParseNextLinkHeader_def)
next
  assume a: \<open>map_of (header resp) ''link'' = Some (pre @ ''<'' @ u @ ''>;'' @ ws @ ''rel="next"'' @ post)
       \<and> CHR 0x0A \<notin> set pre \<and> u \<noteq> [] \<and> CHR 0x0A \<notin> set u \<and> CHR ''<'' \<notin> set u
       \<and> set ws \<subseteq> set whitespace
       \<and> \<not> (\<exists>a ws' b. post = a @ ''>;'' @ ws' @ ''rel="next"'' @ b \<and> set ws' \<subseteq> set whitespace)\<close>
  then have n: "never_next post" unfolding never_next_occurs by blast
  from a have p: "CHR 0x0A \<notin> set pre" "u \<noteq> []" "CHR 0x0A \<notin> set u" "CHR ''<'' \<notin> set u"
    "set ws \<subseteq> set whitespace" by blast+
  from a have l: \<open>map_of (header resp) ''link'' = Some (pre @ ''<'' @ u @ ''>;'' @ ws @ ''rel="next"'' @ post)\<close>
    by blast
  show "ParseNextLinkHeader resp = Some u"
    unfolding ParseNextLinkHeader_def l
    using match_last_next [OF p n] by (simp add: group1_def)
qed

theorem next_link_last_witness:
  \<open>ParseNextLinkHeader
     \<lparr>status = 200,
      header = [(''link'', ''</v2/_catalog?last=a>; rel="next", </v2/_catalog?last=b>; rel="next"; title="b"'')]\<rparr>
     = Some ''/v2/_catalog?last=b''
   \<and> ParseNextLinkHeader \<lparr>status = 200, header = []\<rparr> = None
   \<and> ParseNextLinkHeader
       \<lparr>status = 200, header = [(''link'', ''</v2/_catalog?last=a>; rel="prev"'')]\<rparr> = None\<close>
proof -
  have \<open>never_next ''; title="b"''\<close>
    by (simp add: next_tail_def)
  then have h1: \<open>\<not> (\<exists>a ws' b. ''; title="b"'' = a @ ''>;'' @ ws' @ ''rel="next"'' @ b
                    \<and> set ws' \<subseteq> set whitespace)\<close>
    unfolding never_next_occurs .
  have one: \<open>ParseNextLinkHeader
     \<lparr>status = 200,
      header = [(''link'', ''</v2/_catalog?last=a>; rel="next", </v2/_catalog?last=b>; rel="next"; title="b"'')]\<rparr>
     = Some ''/v2/_catalog?last=b''\<close>
    using h1 next_link_last [where
        resp = \<open>\<lparr>status = 200,
                 header = [(''link'', ''</v2/_catalog?last=a>; rel="next", </v2/_catalog?last=b>; rel="next"; title="b"'')]\<rparr>\<close>
        and pre = \<open>''</v2/_catalog?last=a>; rel="next", ''\<close>
        and u = \<open>''/v2/_catalog?last=b''\<close> and ws = \<open>'' ''\<close> and post = \<open>''; title="b"''\<close>]
    by (simp add: whitespace_def)
  have two: "ParseNextLinkHeader \<lparr>status = 200, header = []\<rparr> = None"
    using next_link_last [where resp = "\<lparr>status = 200, header = []\<rparr>"] by simp
  have \<open>never_next ''</v2/_catalog?last=a>; rel="prev"''\<close>
    by (simp add: next_tail_def lits_def whitespace_def)
  then have h3: \<open>\<not> (\<exists>a ws b. ''</v2/_catalog?last=a>; rel="prev"'' = a @ ''>;'' @ ws @ ''rel="next"'' @ b
                    \<and> set ws \<subseteq> set whitespace)\<close>
    unfolding never_next_occurs .
  have three: \<open>ParseNextLinkHeader
       \<lparr>status = 200, header = [(''link'', ''</v2/_catalog?last=a>; rel="prev"'')]\<rparr> = None\<close>
    using h3 next_link_last [where
        resp = \<open>\<lparr>status = 200, header = [(''link'', ''</v2/_catalog?last=a>; rel="prev"'')]\<rparr>\<close>
        and link = \<open>''</v2/_catalog?last=a>; rel="prev"''\<close>]
    by simp
  from one two three show ?thesis by blast
qed

text \<open>
  C9 as stated fails on a header with two \<open>rel="next"\<close> entries: the first \<open>.*\<close> of the
  pattern is greedy, so the URL of the last entry is returned, not that of the first.
\<close>

theorem next_link_counterexample:
  \<open>ParseNextLinkHeader
     \<lparr>status = 200,
      header = [(''link'', ''</v2/_catalog?last=a>; rel="next", </v2/_catalog?last=b>; rel="next"'')]\<rparr>
     = Some ''/v2/_catalog?last=b''\<close>
proof -
  have \<open>rmatch next_link_re
          (''</v2/_catalog?last=a>; rel="next", '' @ ''<'' @ ''/v2/_catalog?last=b'' @ ''>;''
             @ '' '' @ ''rel="next"'' @ []) =
        Some [''/v2/_catalog?last=b'' @ ''>;'' @ '' '' @ ''rel="next"'' @ [],
              ''>;'' @ '' '' @ ''rel="next"'' @ []]\<close>
    by (rule match_last_next) (simp_all add: whitespace_def next_tail_def)
  then show ?thesis
    by (simp add: ParseNextLinkHeader_def group1_def)
qed

end
